theory Spec2Isabelle
  imports Complex_Main
begin

section \<open>Numbers, time and Python errors\<close>

text \<open>
  A Python \<open>float\<close> is modelled as the real number it denotes: the rounding of binary
  floats, NaN and the infinities are outside the model. A \<open>Decimal\<close> is the real number
  it denotes as well (the special values NaN and Infinity are outside the model); the
  Decimal arithmetic of the market resolver and of the leaderboard updater rounds every
  result to the default context, as defined below. In position sizing the Decimal
  products are taken exactly. A \<open>datetime\<close> is the number of seconds since the epoch,
  so that \<open>(a - b).total_seconds()\<close> is \<open>a - b\<close>.
\<close>

type_synonym datetime = real
type_synonym Decimal = real

datatype error =
    KeyError string
  | TypeError
  | InvalidOperation
  | JSONDecodeError
  | HTTPError
  | ValueError
  | Overflow
  | DivisionByZero
  | ZeroDivisionError

text \<open>\<open>d.get(k, default)\<close> on a dictionary.\<close>

definition dict_get :: "('k \<rightharpoonup> 'v) \<Rightarrow> 'k \<Rightarrow> 'v \<Rightarrow> 'v" where
  "dict_get d k dflt = (case d k of None \<Rightarrow> dflt | Some v \<Rightarrow> v)"

text \<open>A field of a dictionary that may be absent, read with a default.\<close>

definition get_or :: "'a option \<Rightarrow> 'a \<Rightarrow> 'a" where
  "get_or v dflt = (case v of None \<Rightarrow> dflt | Some x \<Rightarrow> x)"

section \<open>The decimal context\<close>

text \<open>
  Python's \<open>decimal\<close> module computes every arithmetic result exactly and then rounds
  it to the context: 28 significant digits, ties to the even neighbour, exponents
  between \<open>Emin = -999999\<close> and \<open>Emax = 999999\<close>. A result whose leading digit lies
  above \<open>Emax\<close> raises \<open>Overflow\<close> (the default context traps it); a result below
  \<open>Emin\<close> is rounded at the smallest exponent \<open>Etiny = Emin - 27\<close>. The constructor
  \<open>Decimal(text)\<close> does not round.
\<close>

definition Emax :: int where "Emax = 999999"

definition Etiny :: int where "Etiny = - 1000026"

text \<open>The exponent of the leading digit of a number that is not zero.\<close>

definition adjusted :: "real \<Rightarrow> int" where
  "adjusted x = \<lfloor>log 10 \<bar>x\<bar>\<rfloor>"

definition round_half_even :: "real \<Rightarrow> int" where
  "round_half_even x =
     (let f = \<lfloor>x\<rfloor>; d = x - of_int f
      in if d < 1 / 2 then f
         else if 1 / 2 < d then f + 1
         else if even f then f else f + 1)"

definition context_round :: "real \<Rightarrow> error + Decimal" where
  "context_round x =
     (if x = 0 then Inr 0
      else if adjusted x > Emax then Inl Overflow
      else let q = 10 powi (max (adjusted x - 27) Etiny);
               r = of_int (round_half_even (x / q)) * q
           in if r \<noteq> 0 \<and> adjusted r > Emax then Inl Overflow else Inr r)"

text \<open>
  The operators of \<open>Decimal\<close> the handlers use: unary minus, \<open>-\<close>, \<open>*\<close> and \<open>/\<close>.
\<close>

definition decimal_neg :: "Decimal \<Rightarrow> error + Decimal" where
  "decimal_neg a = context_round (- a)"

definition decimal_sub :: "Decimal \<Rightarrow> Decimal \<Rightarrow> error + Decimal" where
  "decimal_sub a b = context_round (a - b)"

definition decimal_add :: "Decimal \<Rightarrow> Decimal \<Rightarrow> error + Decimal" where
  "decimal_add a b = context_round (a + b)"

definition decimal_mul :: "Decimal \<Rightarrow> Decimal \<Rightarrow> error + Decimal" where
  "decimal_mul a b = context_round (a * b)"

definition decimal_div :: "Decimal \<Rightarrow> Decimal \<Rightarrow> error + Decimal" where
  "decimal_div a b =
     (if b = 0 then (if a = 0 then Inl InvalidOperation else Inl DivisionByZero)
      else context_round (a / b))"

text \<open>Sequencing of two steps of which the first may raise.\<close>

definition then_do :: "error + 'a \<Rightarrow> ('a \<Rightarrow> error + 'b) \<Rightarrow> error + 'b" where
  "then_do r f = (case r of Inl err \<Rightarrow> Inl err | Inr v \<Rightarrow> f v)"

section \<open>common/whether\_api.py: markets\<close>

datatype MarketType = TEMPERATURE_HIGH | TEMPERATURE_LOW | PRECIPITATION | SNOW

fun MarketType_value :: "MarketType \<Rightarrow> string" where
  "MarketType_value TEMPERATURE_HIGH = ''temperature_high''"
| "MarketType_value TEMPERATURE_LOW = ''temperature_low''"
| "MarketType_value PRECIPITATION = ''precipitation''"
| "MarketType_value SNOW = ''snow''"

datatype Location = NYC | CHI | MIA | AUS

fun Location_value :: "Location \<Rightarrow> string" where
  "Location_value NYC = ''NYC''"
| "Location_value CHI = ''CHI''"
| "Location_value MIA = ''MIA''"
| "Location_value AUS = ''AUS''"

text \<open>
  The fields of \<open>Market\<close> that the handlers read. \<open>id\<close> and \<open>type\<close> are primed because
  the plain names are taken.
\<close>

record Market =
  id' :: string
  type' :: MarketType
  location :: Location
  yes_price :: Decimal
  no_price :: Decimal
  resolution_time :: datetime
  outcome :: "string option"

section \<open>The strategy document\<close>

text \<open>
  A strategy is a nested dictionary read with \<open>.get\<close> and defaults; a key that may be
  absent is an \<open>option\<close>. The value of an entry condition is whatever JSON the model
  returned.
\<close>

datatype pyval = Num real | Str string | NoneVal | Other

record EntryCondition =
  cond_field :: "string option"
  cond_operator :: "string option"
  cond_value :: pyval

record MarketSelection =
  types :: "string list option"
  locations :: "string list option"
  timeHorizon :: "string list option"

record PositionSizing =
  baseSize :: "real option"
  scalingRule :: "string option"

record RiskControls =
  minConfidence :: "string option"
  minEdge :: "real option"
  maxPositionSize :: "real option"

record strategy =
  thesis :: "string option"
  marketSelection :: "MarketSelection option"
  entryConditions :: "EntryCondition list option"
  positionDirection :: "string option"
  positionSizing :: "PositionSizing option"
  riskControls :: "RiskControls option"

section \<open>common/dynamodb.py: records\<close>

datatype AgentStatus = AGENT_PENDING | ACTIVE | PAUSED | STOPPED

fun AgentStatus_value :: "AgentStatus \<Rightarrow> string" where
  "AgentStatus_value AGENT_PENDING = ''pending''"
| "AgentStatus_value ACTIVE = ''active''"
| "AgentStatus_value PAUSED = ''paused''"
| "AgentStatus_value STOPPED = ''stopped''"

datatype PositionStatus = PENDING | OPEN | CLOSED | CANCELLED

record Agent =
  agent_id :: string
  user_id :: string
  telegram_chat_id :: int
  strategy_name :: string
  strategy_config :: strategy
  status :: AgentStatus
  total_trades :: int
  winning_trades :: int
  total_pnl :: Decimal

record Position =
  position_id :: string
  agent_id :: string
  market_id :: string
  direction :: string
  size :: Decimal
  entry_price :: Decimal
  status :: PositionStatus
  created_at :: datetime
  updated_at :: datetime
  exit_price :: "Decimal option"
  pnl :: "Decimal option"
  prediction_id :: "string option"

record Prediction =
  prediction_id :: string
  agent_id :: string
  market_id :: string
  predicted_probability :: real
  market_probability :: real
  confidence :: string
  edge :: real
  reasoning :: string
  recommended_direction :: string
  created_at :: datetime
  was_correct :: "bool option"
  actual_outcome :: "string option"

section \<open>agent\_orchestrator/app.py: pure parts\<close>

definition CONFIDENCE_ORDER :: "string \<rightharpoonup> int" where
  "CONFIDENCE_ORDER =
     [''low'' \<mapsto> 0, ''medium'' \<mapsto> 1, ''high'' \<mapsto> 2, ''very_high'' \<mapsto> 3]"

subsection \<open>filter\_markets\_for\_strategy\<close>

text \<open>
  One pass of the loop body: \<open>True\<close> when the market reaches \<open>filtered.append\<close>,
  \<open>False\<close> when one of the \<open>continue\<close> statements is taken. \<open>now\<close> is the clock
  reading taken once before the loop.
\<close>

definition market_selected :: "Market \<Rightarrow> strategy \<Rightarrow> datetime \<Rightarrow> bool" where
  "market_selected market strat now =
     (let market_selection =
            get_or (marketSelection strat)
              \<lparr>types = None, locations = None, timeHorizon = None\<rparr>;
          allowed_types = get_or (types market_selection) [];
          allowed_locations = get_or (locations market_selection) [];
          time_horizons = get_or (timeHorizon market_selection) []
      in if allowed_types \<noteq> [] \<and> MarketType_value (type' market) \<notin> set allowed_types
           then False
         else if allowed_locations \<noteq> []
                 \<and> Location_value (location market) \<notin> set allowed_locations
           then False
         else if time_horizons \<noteq> [] then
           (let hours_until_resolution = (resolution_time market - now) / 3600
            in if ''same_day'' \<in> set time_horizons \<and> hours_until_resolution \<le> 24
                 then True
               else if ''next_day'' \<in> set time_horizons
                       \<and> 24 < hours_until_resolution \<and> hours_until_resolution \<le> 48
                 then True
               else if ''weekly'' \<in> set time_horizons
                       \<and> 48 < hours_until_resolution \<and> hours_until_resolution \<le> 168
                 then True
               else False)
         else True)"

fun filter_loop :: "Market list \<Rightarrow> strategy \<Rightarrow> datetime \<Rightarrow> Market list \<Rightarrow> Market list" where
  "filter_loop [] strat now filtered = filtered"
| "filter_loop (market # markets) strat now filtered =
     (if market_selected market strat now
        then filter_loop markets strat now (filtered @ [market])
        else filter_loop markets strat now filtered)"

definition filter_markets_for_strategy :: "Market list \<Rightarrow> strategy \<Rightarrow> datetime \<Rightarrow> Market list" where
  "filter_markets_for_strategy markets strat now = filter_loop markets strat now []"

subsection \<open>evaluate\_entry\_condition and should\_open\_position\<close>

text \<open>
  Python's ordering comparisons of a number with a value that is not a number raise
  \<open>TypeError\<close>; \<open>==\<close> never raises.
\<close>

fun py_lt :: "real \<Rightarrow> pyval \<Rightarrow> error + bool" where
  "py_lt a (Num v) = Inr (a < v)"
| "py_lt a _ = Inl TypeError"

fun py_le :: "real \<Rightarrow> pyval \<Rightarrow> error + bool" where
  "py_le a (Num v) = Inr (a \<le> v)"
| "py_le a _ = Inl TypeError"

fun py_gt :: "real \<Rightarrow> pyval \<Rightarrow> error + bool" where
  "py_gt a (Num v) = Inr (a > v)"
| "py_gt a _ = Inl TypeError"

fun py_ge :: "real \<Rightarrow> pyval \<Rightarrow> error + bool" where
  "py_ge a (Num v) = Inr (a \<ge> v)"
| "py_ge a _ = Inl TypeError"

fun py_eq :: "real \<Rightarrow> pyval \<Rightarrow> error + bool" where
  "py_eq a (Num v) = Inr (a = v)"
| "py_eq a _ = Inr False"

definition evaluate_operator :: "string \<Rightarrow> real \<Rightarrow> pyval \<Rightarrow> error + bool" where
  "evaluate_operator operator actual val =
     (if operator = ''gt'' then py_gt actual val
      else if operator = ''lt'' then py_lt actual val
      else if operator = ''gte'' then py_ge actual val
      else if operator = ''lte'' then py_le actual val
      else if operator = ''eq'' then py_eq actual val
      else Inr True)"

definition evaluate_entry_condition :: "EntryCondition \<Rightarrow> Prediction \<Rightarrow> error + bool" where
  "evaluate_entry_condition condition prediction =
     (let field = get_or (cond_field condition) '''';
          operator = get_or (cond_operator condition) '''';
          val = cond_value condition
      in if field = ''edge'' then
           evaluate_operator operator (edge prediction) val
         else if field = ''confidence'' then
           evaluate_operator operator
             (of_int (dict_get CONFIDENCE_ORDER (confidence prediction) 0))
             (case val of Str s \<Rightarrow> Num (of_int (dict_get CONFIDENCE_ORDER s 1)) | v \<Rightarrow> v)
         else if field = ''market_probability'' then
           evaluate_operator operator (market_probability prediction * 100) val
         else if field = ''forecast_probability'' then
           evaluate_operator operator (predicted_probability prediction * 100) val
         else Inr True)"

text \<open>The loop over the entry conditions: the first failing condition returns \<open>False\<close>.\<close>

fun conditions_loop :: "EntryCondition list \<Rightarrow> Prediction \<Rightarrow> error + bool" where
  "conditions_loop [] prediction = Inr True"
| "conditions_loop (condition # conditions) prediction =
     (case evaluate_entry_condition condition prediction of
        Inl e \<Rightarrow> Inl e
      | Inr ok \<Rightarrow> if \<not> ok then Inr False else conditions_loop conditions prediction)"

definition should_open_position :: "Prediction \<Rightarrow> strategy \<Rightarrow> error + bool" where
  "should_open_position prediction strat =
     (let risk_controls =
            get_or (riskControls strat)
              \<lparr>minConfidence = None, minEdge = None, maxPositionSize = None\<rparr>;
          entry_conditions = get_or (entryConditions strat) [];
          min_confidence = get_or (minConfidence risk_controls) ''medium'';
          prediction_confidence_order = dict_get CONFIDENCE_ORDER (confidence prediction) 0;
          required_confidence_order = dict_get CONFIDENCE_ORDER min_confidence 1
      in if prediction_confidence_order < required_confidence_order then Inr False
         else let min_edge = get_or (minEdge risk_controls) 0.05
              in if edge prediction < min_edge then Inr False
                 else conditions_loop entry_conditions prediction)"

subsection \<open>calculate\_position\_size\<close>

definition confidence_multiplier :: "string \<rightharpoonup> Decimal" where
  "confidence_multiplier =
     [''low'' \<mapsto> 0.5, ''medium'' \<mapsto> 1.0, ''high'' \<mapsto> 1.5, ''very_high'' \<mapsto> 2.0]"

definition calculate_position_size :: "Prediction \<Rightarrow> strategy \<Rightarrow> Decimal" where
  "calculate_position_size prediction strat =
     (let position_sizing = get_or (positionSizing strat) \<lparr>baseSize = None, scalingRule = None\<rparr>;
          risk_controls =
            get_or (riskControls strat)
              \<lparr>minConfidence = None, minEdge = None, maxPositionSize = None\<rparr>;
          base_size = get_or (baseSize position_sizing) 0.05;
          scaling_rule = get_or (scalingRule position_sizing) ''fixed'';
          max_position = get_or (maxPositionSize risk_controls) 0.20;
          size =
            (if scaling_rule = ''confidence_scaled'' then
               base_size * dict_get confidence_multiplier (confidence prediction) 1.0
             else if scaling_rule = ''edge_scaled'' then
               base_size * min (edge prediction * 10) 2.0
             else if scaling_rule = ''kelly'' then
               (let p = predicted_probability prediction;
                    q = 1 - p;
                    kelly_fraction = max 0 (p - q)
                in base_size * kelly_fraction * 0.5)
             else base_size)
      in min size max_position)"

section \<open>The external world\<close>

text \<open>
  Everything the handlers share lives outside the process: the three tables of the
  key-value store, the execution queue, the market API and the hosted model. The world
  record holds what the claims observe: the tables (as lists of items), the queue, the
  paper positions registered with the market API, the analyses requested from the hosted
  model, the wall clock and the number of UUIDs drawn so far.
\<close>

datatype decimal_arg = DecimalText Decimal | NotDecimal

text \<open>
  The body of a queue message is a JSON dictionary; \<open>message["k"]\<close> raises \<open>KeyError\<close>
  on an absent key and \<open>Decimal(v)\<close> raises on a value that is not a decimal numeral.
\<close>

record ExecutionRequest =
  agentId :: "string option"
  marketId :: "string option"
  direction :: "string option"
  size :: "decimal_arg option"
  entryPrice :: "decimal_arg option"
  predictionId :: "string option"
  telegramChatId :: "int option"
  timestamp :: "datetime option"

record PaperRequest =
  paper_agent_id :: string
  paper_market_id :: string
  paper_direction :: string
  paper_amount :: Decimal

record world =
  agents_table :: "Agent list"
  positions_table :: "Position list"
  predictions_table :: "Prediction list"
  position_queue :: "ExecutionRequest list"
  paper_positions :: "PaperRequest list"
  bedrock_calls :: "(string \<times> string) list"
  clock :: datetime
  uuid_counter :: nat

text \<open>
  What the model's reply to a market analysis contains, after \<open>json.loads\<close>.
\<close>

record Analysis =
  predictedProbability :: real
  reply_confidence :: string
  reply_reasoning :: string
  recommendedDirection :: string

text \<open>
  The answer of the market API to \<open>create_paper_position\<close>: the position is created and
  the reply parses; the request is refused (\<open>raise_for_status\<close> raises, nothing is
  registered); or the position is created and the reply does not parse.
\<close>

datatype api_outcome = Created | Rejected | BadReply

text \<open>
  The environment fixes what the external services answer: the UUID generator, how far
  the clock has moved at the next loop iteration, the hosted model, the market API and
  whether the queue accepts a message.
\<close>

record env =
  uuid4 :: "nat \<Rightarrow> string"
  advance :: "world \<Rightarrow> datetime"
  analyze_market :: "world \<Rightarrow> Agent \<Rightarrow> Market \<Rightarrow> error + Analysis"
  create_paper_position :: "world \<Rightarrow> PaperRequest \<Rightarrow> api_outcome"
  send_message :: "world \<Rightarrow> ExecutionRequest \<Rightarrow> bool"
  get_active_markets :: "world \<Rightarrow> error + Market list"

subsection \<open>common/dynamodb.py: DynamoDBClient\<close>

definition get_agent :: "world \<Rightarrow> string \<Rightarrow> Agent option" where
  "get_agent w aid = find (\<lambda>a. Agent.agent_id a = aid) (agents_table w)"

definition get_active_agents :: "world \<Rightarrow> Agent list" where
  "get_active_agents w =
     filter (\<lambda>a. AgentStatus_value (Agent.status a) = AgentStatus_value ACTIVE) (agents_table w)"

text \<open>
  \<open>put_item\<close> replaces the item that has the same key, or adds a new one.
\<close>

definition create_position :: "world \<Rightarrow> Position \<Rightarrow> world" where
  "create_position w position =
     w\<lparr>positions_table :=
          filter (\<lambda>p. position_id p \<noteq> position_id position) (positions_table w) @ [position]\<rparr>"

text \<open>
  \<open>update_item\<close> sets the status and the update time, and the exit price and the
  profit/loss when they are given.
\<close>

definition update_position_status ::
    "world \<Rightarrow> string \<Rightarrow> PositionStatus \<Rightarrow> Decimal option \<Rightarrow> Decimal option \<Rightarrow> world" where
  "update_position_status w pid st exit_price_arg pnl_arg =
     w\<lparr>positions_table :=
          map (\<lambda>p. if position_id p = pid
                    then p\<lparr>Position.status := st,
                           updated_at := clock w,
                           exit_price := (case exit_price_arg of None \<Rightarrow> exit_price p
                                          | Some x \<Rightarrow> Some x),
                           pnl := (case pnl_arg of None \<Rightarrow> pnl p | Some x \<Rightarrow> Some x)\<rparr>
                    else p)
              (positions_table w)\<rparr>"

definition create_prediction :: "world \<Rightarrow> Prediction \<Rightarrow> world" where
  "create_prediction w prediction =
     w\<lparr>predictions_table :=
          filter (\<lambda>p. Prediction.prediction_id p \<noteq> Prediction.prediction_id prediction)
            (predictions_table w) @ [prediction]\<rparr>"

text \<open>
  The query on the agent index returns the agent's predictions newest first
  (\<open>ScanIndexForward=False\<close> on the creation time) and stops after \<open>limit\<close> items.
\<close>

definition get_predictions_by_agent :: "world \<Rightarrow> string \<Rightarrow> nat \<Rightarrow> Prediction list" where
  "get_predictions_by_agent w aid limit =
     take limit
       (sort_key (\<lambda>p. - Prediction.created_at p)
          (filter (\<lambda>p. Prediction.agent_id p = aid) (predictions_table w)))"

definition get_prediction_for_market :: "world \<Rightarrow> string \<Rightarrow> string \<Rightarrow> Prediction option" where
  "get_prediction_for_market w aid mid =
     find (\<lambda>pred. Prediction.market_id pred = mid) (get_predictions_by_agent w aid 100)"

section \<open>agent\_orchestrator/app.py: the cycle\<close>

subsection \<open>analyze\_market\_for\_agent\<close>

text \<open>
  The weather lookup cannot fail the analysis (its exception is caught) and does not
  enter the record, so it is left out. The hosted model is asked once; its reply must
  name a confidence tier and a direction of the two enumerations, and the edge is the
  distance between the predicted probability and the market's YES price.
\<close>

definition analyze_market_for_agent ::
    "env \<Rightarrow> Agent \<Rightarrow> Market \<Rightarrow> strategy \<Rightarrow> world \<Rightarrow> (error + Prediction) \<times> world" where
  "analyze_market_for_agent e agent market strat w =
     (let w1 = w\<lparr>bedrock_calls := bedrock_calls w @ [(Agent.agent_id agent, id' market)]\<rparr>;
          yes_probability = yes_price market * 100
      in case analyze_market e w agent market of
           Inl err \<Rightarrow> (Inl err, w1)
         | Inr analysis \<Rightarrow>
             if recommendedDirection analysis \<notin> set [''YES'', ''NO'', ''dynamic'']
               then (Inl ValueError, w1)
             else if reply_confidence analysis \<notin> set [''low'', ''medium'', ''high'', ''very_high'']
               then (Inl ValueError, w1)
             else
               (Inr \<lparr>Prediction.prediction_id = uuid4 e (uuid_counter w1),
                     agent_id = Agent.agent_id agent,
                     market_id = id' market,
                     predicted_probability = predictedProbability analysis,
                     market_probability = yes_probability / 100,
                     confidence = reply_confidence analysis,
                     edge = \<bar>predictedProbability analysis - yes_probability / 100\<bar>,
                     reasoning = reply_reasoning analysis,
                     recommended_direction = recommendedDirection analysis,
                     created_at = clock w1,
                     was_correct = None,
                     actual_outcome = None\<rparr>,
                w1\<lparr>uuid_counter := Suc (uuid_counter w1)\<rparr>))"

subsection \<open>queue\_position\<close>

text \<open>
  Queueing sends one message to the execution queue and writes nothing to the tables.
\<close>

definition queue_position ::
    "env \<Rightarrow> Agent \<Rightarrow> Market \<Rightarrow> Prediction \<Rightarrow> strategy \<Rightarrow> world \<Rightarrow> (error + unit) \<times> world" where
  "queue_position e agent market prediction strat w =
     (let size = calculate_position_size prediction strat;
          direction =
            (case positionDirection strat of
               None \<Rightarrow> recommended_direction prediction
             | Some d \<Rightarrow>
                 if d \<in> set [''YES'', ''NO''] then d else recommended_direction prediction);
          message =
            \<lparr>agentId = Some (Agent.agent_id agent),
             marketId = Some (id' market),
             direction = Some direction,
             size = Some (DecimalText size),
             entryPrice =
               Some (DecimalText (if direction = ''YES'' then yes_price market
                                  else no_price market)),
             predictionId = Some (Prediction.prediction_id prediction),
             telegramChatId = Some (telegram_chat_id agent),
             timestamp = Some (clock w)\<rparr>
      in if send_message e w message
           then (Inr (), w\<lparr>position_queue := position_queue w @ [message]\<rparr>)
           else (Inl HTTPError, w))"

subsection \<open>process\_agent\<close>

text \<open>
  The body of the loop over the relevant markets, on the world and the two counters.
  Every exception of the body is caught and logged; the loop goes on with the next
  market. The clock moves on between two iterations.
\<close>

definition analyse_and_queue ::
    "env \<Rightarrow> Agent \<Rightarrow> strategy \<Rightarrow> Market \<Rightarrow> world \<times> nat \<times> nat \<Rightarrow> world \<times> nat \<times> nat" where
  "analyse_and_queue e agent strat market state =
     (case state of (w, predictions_created, positions_queued) \<Rightarrow>
        (case analyze_market_for_agent e agent market strat w of
           (Inl err, w1) \<Rightarrow> (w1, predictions_created, positions_queued)
         | (Inr prediction, w1) \<Rightarrow>
             let w2 = create_prediction w1 prediction
             in (case should_open_position prediction strat of
                   Inl err \<Rightarrow> (w2, predictions_created + 1, positions_queued)
                 | Inr False \<Rightarrow> (w2, predictions_created + 1, positions_queued)
                 | Inr True \<Rightarrow>
                     (case queue_position e agent market prediction strat w2 of
                        (Inl err, w3) \<Rightarrow> (w3, predictions_created + 1, positions_queued)
                      | (Inr u, w3) \<Rightarrow>
                          (w3, predictions_created + 1, positions_queued + 1)))))"

definition recent_prediction_exists :: "world \<Rightarrow> Agent \<Rightarrow> Market \<Rightarrow> bool" where
  "recent_prediction_exists w agent market =
     (case get_prediction_for_market w (Agent.agent_id agent) (id' market) of
        None \<Rightarrow> False
      | Some existing \<Rightarrow> clock w - Prediction.created_at existing < 3600)"

definition process_market ::
    "env \<Rightarrow> Agent \<Rightarrow> strategy \<Rightarrow> Market \<Rightarrow> world \<times> nat \<times> nat \<Rightarrow> world \<times> nat \<times> nat" where
  "process_market e agent strat market state =
     (let (w', created', queued') =
            (if recent_prediction_exists (fst state) agent market then state
             else analyse_and_queue e agent strat market state)
      in (w'\<lparr>clock := advance e w'\<rparr>, created', queued'))"

fun markets_loop ::
    "env \<Rightarrow> Agent \<Rightarrow> strategy \<Rightarrow> Market list \<Rightarrow> world \<times> nat \<times> nat \<Rightarrow> world \<times> nat \<times> nat" where
  "markets_loop e agent strat [] state = state"
| "markets_loop e agent strat (market # markets) state =
     markets_loop e agent strat markets (process_market e agent strat market state)"

definition process_agent :: "env \<Rightarrow> Agent \<Rightarrow> Market list \<Rightarrow> world \<Rightarrow> world \<times> nat \<times> nat" where
  "process_agent e agent markets w =
     (let strat = strategy_config agent;
          relevant_markets = filter_markets_for_strategy markets strat (clock w)
      in if relevant_markets = [] then (w, 0, 0)
         else markets_loop e agent strat relevant_markets (w, 0, 0))"

text \<open>
  The handler: every active agent is processed against the active markets in turn.
\<close>

fun agents_loop :: "env \<Rightarrow> Agent list \<Rightarrow> Market list \<Rightarrow> world \<Rightarrow> world" where
  "agents_loop e [] markets w = w"
| "agents_loop e (agent # agents) markets w =
     agents_loop e agents markets (fst (process_agent e agent markets w))"

definition orchestrator_lambda_handler :: "env \<Rightarrow> world \<Rightarrow> world" where
  "orchestrator_lambda_handler e w =
     (let agents = get_active_agents w
      in if agents = [] then w
         else case get_active_markets e w of
                Inl err \<Rightarrow> w
              | Inr markets \<Rightarrow> if markets = [] then w else agents_loop e agents markets w)"

section \<open>position\_executor/app.py\<close>

definition Position_create ::
    "env \<Rightarrow> world \<Rightarrow> string \<Rightarrow> string \<Rightarrow> string \<Rightarrow> Decimal \<Rightarrow> Decimal \<Rightarrow> string option \<Rightarrow> Position" where
  "Position_create e w aid mid dir sz price pred_id =
     \<lparr>position_id = uuid4 e (uuid_counter w),
      agent_id = aid,
      market_id = mid,
      direction = dir,
      size = sz,
      entry_price = price,
      status = PENDING,
      created_at = clock w,
      updated_at = clock w,
      exit_price = None,
      pnl = None,
      prediction_id = pred_id\<rparr>"

text \<open>
  The notification to the chat is sent inside its own \<open>try\<close> and changes nothing the
  claims observe; it is left out.
\<close>

definition execute_position ::
    "env \<Rightarrow> ExecutionRequest \<Rightarrow> string \<Rightarrow> string \<Rightarrow> string \<Rightarrow> Decimal \<Rightarrow> Decimal \<Rightarrow> world
      \<Rightarrow> (error + unit) \<times> world" where
  "execute_position e message aid mid dir sz price w =
     (case get_agent w aid of
        None \<Rightarrow> (Inr (), w)
      | Some agent \<Rightarrow>
          if AgentStatus_value (Agent.status agent) \<noteq> ''active'' then (Inr (), w)
          else
            (let request = \<lparr>paper_agent_id = aid, paper_market_id = mid,
                            paper_direction = dir, paper_amount = sz\<rparr>
             in (case create_paper_position e w request of
                   Rejected \<Rightarrow> (Inl HTTPError, w)
                 | BadReply \<Rightarrow>
                     (Inl (KeyError ''id''),
                      w\<lparr>paper_positions := paper_positions w @ [request]\<rparr>)
                 | Created \<Rightarrow>
                     (let w1 = w\<lparr>paper_positions := paper_positions w @ [request]\<rparr>;
                          created =
                            Position_create e w1 aid mid dir sz price (predictionId message);
                          w2 = w1\<lparr>uuid_counter := Suc (uuid_counter w1)\<rparr>;
                          position = created\<lparr>Position.status := OPEN\<rparr>
                      in (Inr (), create_position w2 position)))))"

text \<open>
  The five required fields are read, in the order of the source, before the agent is
  looked up: a missing key or a value that is not a decimal raises there.
\<close>

definition process_position_message ::
    "env \<Rightarrow> ExecutionRequest \<Rightarrow> world \<Rightarrow> (error + unit) \<times> world" where
  "process_position_message e message w =
     (case agentId message of
        None \<Rightarrow> (Inl (KeyError ''agentId''), w)
      | Some aid \<Rightarrow>
     (case marketId message of
        None \<Rightarrow> (Inl (KeyError ''marketId''), w)
      | Some mid \<Rightarrow>
     (case ExecutionRequest.direction message of
        None \<Rightarrow> (Inl (KeyError ''direction''), w)
      | Some dir \<Rightarrow>
     (case ExecutionRequest.size message of
        None \<Rightarrow> (Inl (KeyError ''size''), w)
      | Some NotDecimal \<Rightarrow> (Inl InvalidOperation, w)
      | Some (DecimalText sz) \<Rightarrow>
     (case entryPrice message of
        None \<Rightarrow> (Inl (KeyError ''entryPrice''), w)
      | Some NotDecimal \<Rightarrow> (Inl InvalidOperation, w)
      | Some (DecimalText price) \<Rightarrow> execute_position e message aid mid dir sz price w)))))"

text \<open>
  A queue record: its identifier and its body. A record without a body is read as the
  empty dictionary; a body that is not JSON makes \<open>json.loads\<close> raise.
\<close>

datatype json_body = Malformed | Parsed ExecutionRequest

record sqs_record =
  messageId :: "string option"
  body :: "json_body option"

definition empty_message :: ExecutionRequest where
  "empty_message =
     \<lparr>agentId = None, marketId = None, direction = None, size = None, entryPrice = None,
      predictionId = None, telegramChatId = None, timestamp = None\<rparr>"

text \<open>The \<open>try\<close> block of the handler for one record.\<close>

definition process_record :: "env \<Rightarrow> sqs_record \<Rightarrow> world \<Rightarrow> (error + unit) \<times> world" where
  "process_record e r w =
     (case body r of
        None \<Rightarrow> process_position_message e empty_message w
      | Some Malformed \<Rightarrow> (Inl JSONDecodeError, w)
      | Some (Parsed message) \<Rightarrow> process_position_message e message w)"

fun records_loop ::
    "env \<Rightarrow> sqs_record list \<Rightarrow> world \<Rightarrow> string option list \<Rightarrow> string option list \<times> world" where
  "records_loop e [] w batch_item_failures = (batch_item_failures, w)"
| "records_loop e (r # records) w batch_item_failures =
     (case process_record e r w of
        (Inl err, w') \<Rightarrow> records_loop e records w' (batch_item_failures @ [messageId r])
      | (Inr u, w') \<Rightarrow> records_loop e records w' batch_item_failures)"

definition executor_lambda_handler ::
    "env \<Rightarrow> sqs_record list \<Rightarrow> world \<Rightarrow> string option list \<times> world" where
  "executor_lambda_handler e records w = records_loop e records w []"

section \<open>market\_resolver/app.py\<close>

text \<open>
  A position item of the table is read back as the record it was written from. The
  notification at the end of \<open>resolve_position\<close> changes nothing the claims observe
  and is left out.
\<close>

text \<open>
  The win test and the profit/loss of \<open>resolve_position\<close>. Both products are
  \<open>Decimal\<close> operations and are rounded to the context; \<open>-size * entry_price\<close> negates
  first and multiplies then.
\<close>

definition position_won :: "Position \<Rightarrow> Market \<Rightarrow> bool" where
  "position_won position_item market =
     (let dir = Position.direction position_item;
          result = outcome market
      in (dir = ''YES'' \<and> result = Some ''YES'') \<or> (dir = ''NO'' \<and> result = Some ''NO''))"

definition position_pnl :: "Position \<Rightarrow> Market \<Rightarrow> error + Decimal" where
  "position_pnl position_item market =
     (let sz = Position.size position_item;
          price = entry_price position_item
      in if position_won position_item market
           then then_do (decimal_sub 1 price) (\<lambda>difference. decimal_mul sz difference)
           else then_do (decimal_neg sz) (\<lambda>negated. decimal_mul negated price))"

text \<open>
  An exception of the arithmetic leaves \<open>resolve_position\<close> before the table is
  written; the handler logs it and goes on with the next position.
\<close>

definition resolve_position :: "Position \<Rightarrow> Market \<Rightarrow> world \<Rightarrow> (error + bool) \<times> world" where
  "resolve_position position_item market w =
     (let pid = position_id position_item;
          won = position_won position_item market
      in case position_pnl position_item market of
           Inl err \<Rightarrow> (Inl err, w)
         | Inr profit \<Rightarrow>
             (let exit = (if won then 1 else 0)
              in (Inr True, update_position_status w pid CLOSED (Some exit) (Some profit))))"

text \<open>
  For one resolved market the handler scans the positions table for the open positions
  of that market and resolves each of them.
\<close>

fun resolve_items :: "Position list \<Rightarrow> Market \<Rightarrow> world \<Rightarrow> world" where
  "resolve_items [] market w = w"
| "resolve_items (position_item # items) market w =
     resolve_items items market (snd (resolve_position position_item market w))"

definition resolve_market :: "Market \<Rightarrow> world \<Rightarrow> world" where
  "resolve_market market w =
     resolve_items
       (filter (\<lambda>p. Position.market_id p = id' market \<and> Position.status p = OPEN)
          (positions_table w))
       market w"

section \<open>leaderboard\_updater/app.py\<close>

text \<open>
  The updater computes with Python numbers of three kinds. An operator applied to two
  of them follows Python's rules: \<open>int\<close> with \<open>int\<close> stays \<open>int\<close> (true division
  gives a \<open>float\<close>), a \<open>float\<close> with an \<open>int\<close> or a \<open>float\<close> gives a \<open>float\<close>, a
  \<open>Decimal\<close> with an \<open>int\<close> or a \<open>Decimal\<close> gives a \<open>Decimal\<close> rounded to the context,
  and a \<open>Decimal\<close> with a \<open>float\<close> raises \<open>TypeError\<close>. Comparisons between the three
  kinds are allowed.
\<close>

datatype pynum = PyInt int | PyFloat real | PyDecimal Decimal

fun py_real :: "pynum \<Rightarrow> real" where
  "py_real (PyInt i) = of_int i"
| "py_real (PyFloat x) = x"
| "py_real (PyDecimal d) = d"

fun py_mul :: "pynum \<Rightarrow> pynum \<Rightarrow> error + pynum" where
  "py_mul (PyInt a) (PyInt b) = Inr (PyInt (a * b))"
| "py_mul (PyDecimal a) (PyFloat b) = Inl TypeError"
| "py_mul (PyFloat a) (PyDecimal b) = Inl TypeError"
| "py_mul (PyDecimal a) b = then_do (decimal_mul a (py_real b)) (\<lambda>d. Inr (PyDecimal d))"
| "py_mul a (PyDecimal b) = then_do (decimal_mul (py_real a) b) (\<lambda>d. Inr (PyDecimal d))"
| "py_mul a b = Inr (PyFloat (py_real a * py_real b))"

fun py_add :: "pynum \<Rightarrow> pynum \<Rightarrow> error + pynum" where
  "py_add (PyInt a) (PyInt b) = Inr (PyInt (a + b))"
| "py_add (PyDecimal a) (PyFloat b) = Inl TypeError"
| "py_add (PyFloat a) (PyDecimal b) = Inl TypeError"
| "py_add (PyDecimal a) b = then_do (decimal_add a (py_real b)) (\<lambda>d. Inr (PyDecimal d))"
| "py_add a (PyDecimal b) = then_do (decimal_add (py_real a) b) (\<lambda>d. Inr (PyDecimal d))"
| "py_add a b = Inr (PyFloat (py_real a + py_real b))"

fun py_truediv :: "pynum \<Rightarrow> pynum \<Rightarrow> error + pynum" where
  "py_truediv (PyDecimal a) (PyFloat b) = Inl TypeError"
| "py_truediv (PyFloat a) (PyDecimal b) = Inl TypeError"
| "py_truediv (PyDecimal a) b = then_do (decimal_div a (py_real b)) (\<lambda>d. Inr (PyDecimal d))"
| "py_truediv a (PyDecimal b) = then_do (decimal_div (py_real a) b) (\<lambda>d. Inr (PyDecimal d))"
| "py_truediv a b =
     (if py_real b = 0 then Inl ZeroDivisionError else Inr (PyFloat (py_real a / py_real b)))"

text \<open>\<open>min(a, b)\<close> and \<open>max(a, b)\<close> return the first argument unless the second beats it.\<close>

definition py_min :: "pynum \<Rightarrow> pynum \<Rightarrow> pynum" where
  "py_min a b = (if py_real b < py_real a then b else a)"

definition py_max :: "pynum \<Rightarrow> pynum \<Rightarrow> pynum" where
  "py_max a b = (if py_real a < py_real b then b else a)"

text \<open>
  An item of the agents table as the scan returns it. The table resource of the SDK
  hands every number attribute back as a \<open>Decimal\<close>, so the two counters, which the
  store holds as numbers, arrive as \<open>Decimal\<close>; the total PnL is stored as text. A key
  that is absent is read with \<open>.get\<close> and its default.
\<close>

record agent_item =
  item_agentId :: "string option"
  item_totalTrades :: "pynum option"
  item_winningTrades :: "pynum option"
  item_totalPnl :: "Decimal option"

definition scan_item :: "Agent \<Rightarrow> agent_item" where
  "scan_item a =
     \<lparr>item_agentId = Some (Agent.agent_id a),
      item_totalTrades = Some (PyDecimal (of_int (total_trades a))),
      item_winningTrades = Some (PyDecimal (of_int (winning_trades a))),
      item_totalPnl = Some (total_pnl a)\<rparr>"

text \<open>The scan keeps the agents whose \<open>totalTrades\<close> is greater than 0.\<close>

definition agents_to_rank :: "world \<Rightarrow> agent_item list" where
  "agents_to_rank w = map scan_item (filter (\<lambda>a. total_trades a > 0) (agents_table w))"

text \<open>
  The body of the loop over the scanned items, up to the value of \<open>score\<close>. The
  operands of the sum are evaluated from left to right; the loop has no \<open>try\<close>, so an
  exception raised here leaves the handler.
\<close>

definition leaderboard_score :: "world \<Rightarrow> agent_item \<Rightarrow> error + pynum" where
  "leaderboard_score w item =
     (let agent_id = get_or (item_agentId item) [];
          total_trades = get_or (item_totalTrades item) (PyInt 0);
          winning_trades = get_or (item_winningTrades item) (PyInt 0);
          total_pnl = get_or (item_totalPnl item) 0
      in then_do
           (if 0 < py_real total_trades then py_truediv winning_trades total_trades
            else Inr (PyInt 0))
           (\<lambda>win_rate.
      let predictions = get_predictions_by_agent w agent_id 100;
          correct_predictions =
            int (length (filter (\<lambda>p. was_correct p = Some True) predictions));
          total_with_outcome =
            int (length (filter (\<lambda>p. was_correct p \<noteq> None) predictions))
      in then_do
           (if total_with_outcome > 0
              then py_truediv (PyInt correct_predictions) (PyInt total_with_outcome)
              else Inr (PyInt 0))
           (\<lambda>prediction_accuracy.
      let normalized_pnl = PyFloat (total_pnl / 100)
      in then_do (py_truediv total_trades (PyInt 100)) (\<lambda>hundredth.
      let normalized_trades = py_min hundredth (PyFloat 1.0)
      in then_do (py_mul win_rate (PyFloat 0.4)) (\<lambda>t1.
         then_do (py_mul (py_max (py_min normalized_pnl (PyFloat 1.0)) (PyFloat (- 1.0)))
                    (PyFloat 0.3)) (\<lambda>t2.
         then_do (py_add t1 t2) (\<lambda>s1.
         then_do (py_mul normalized_trades (PyFloat 0.2)) (\<lambda>t3.
         then_do (py_add s1 t3) (\<lambda>s2.
         then_do (py_mul prediction_accuracy (PyFloat 0.1)) (\<lambda>t4.
         py_add s2 t4))))))))))"

section \<open>Notions used to state the properties\<close>

text \<open>
  The world in which each record of a batch is processed, and whether processing it
  raises there.
\<close>

fun states_before :: "env \<Rightarrow> sqs_record list \<Rightarrow> world \<Rightarrow> world list" where
  "states_before e [] w = []"
| "states_before e (r # records) w = w # states_before e records (snd (process_record e r w))"

definition raised :: "env \<Rightarrow> sqs_record \<Rightarrow> world \<Rightarrow> bool" where
  "raised e r w = isl (fst (process_record e r w))"

text \<open>
  An execution request as \<open>queue_position\<close> writes it: the five fields the executor
  reads with \<open>message[...]\<close> are there and the two amounts are decimal numerals.
\<close>

definition is_decimal :: "decimal_arg option \<Rightarrow> bool" where
  "is_decimal v = (case v of Some (DecimalText x) \<Rightarrow> True | _ \<Rightarrow> False)"

definition required_fields_present :: "ExecutionRequest \<Rightarrow> bool" where
  "required_fields_present message =
     (agentId message \<noteq> None \<and> marketId message \<noteq> None
      \<and> ExecutionRequest.direction message \<noteq> None
      \<and> is_decimal (ExecutionRequest.size message)
      \<and> is_decimal (entryPrice message))"

text \<open>
  The record \<open>p\<close> after the resolver has handled the scanned item \<open>item\<close> at time
  \<open>t\<close>: closed, or as it was when the arithmetic raises.
\<close>

definition close_record :: "Position \<Rightarrow> Market \<Rightarrow> datetime \<Rightarrow> Position \<Rightarrow> Position" where
  "close_record item market t p =
     (case position_pnl item market of
        Inl err \<Rightarrow> p
      | Inr profit \<Rightarrow>
          p\<lparr>Position.status := CLOSED, updated_at := t,
            exit_price := Some (if position_won item market then 1 else 0),
            pnl := Some profit\<rparr>)"

text \<open>
  A number that the context holds exactly: an integer coefficient of at most 28 digits
  and an exponent within the range of the context.
\<close>

definition representable :: "int \<Rightarrow> int \<Rightarrow> real \<Rightarrow> bool" where
  "representable c e x =
     (x = of_int c * 10 powi e \<and> \<bar>c\<bar> < 10 ^ 28 \<and> Etiny \<le> e \<and> e + 28 \<le> Emax)"

text \<open>
  How many analyses were requested from the hosted model, and how many predictions are
  stored, for one (agent, market) pair; and whether the agent's 100 most recent
  predictions contain one for the market that is less than an hour old.
\<close>

definition calls_for :: "world \<Rightarrow> string \<Rightarrow> string \<Rightarrow> nat" where
  "calls_for w aid mid = length (filter (\<lambda>c. c = (aid, mid)) (bedrock_calls w))"

definition predictions_for :: "world \<Rightarrow> string \<Rightarrow> string \<Rightarrow> nat" where
  "predictions_for w aid mid =
     length (filter (\<lambda>p. Prediction.agent_id p = aid \<and> Prediction.market_id p = mid)
               (predictions_table w))"

definition visible_recent_prediction :: "world \<Rightarrow> string \<Rightarrow> string \<Rightarrow> bool" where
  "visible_recent_prediction w aid mid =
     (\<exists>p \<in> set (get_predictions_by_agent w aid 100).
        Prediction.market_id p = mid \<and> clock w - Prediction.created_at p < 3600)"

section \<open>Concrete inputs\<close>

definition example_strategy :: strategy where
  "example_strategy =
     \<lparr>thesis = Some ''Rain in NYC'',
      marketSelection =
        Some \<lparr>types = Some [''precipitation''], locations = Some [''NYC''],
              timeHorizon = Some [''same_day'', ''next_day'']\<rparr>,
      entryConditions =
        Some [\<lparr>cond_field = Some ''temperature_delta'', cond_operator = Some ''between'',
               cond_value = Num 5\<rparr>],
      positionDirection = Some ''dynamic'',
      positionSizing = Some \<lparr>baseSize = Some 0.15, scalingRule = Some ''confidence_scaled''\<rparr>,
      riskControls =
        Some \<lparr>minConfidence = Some ''medium'', minEdge = Some 0.05,
              maxPositionSize = Some 0.20\<rparr>\<rparr>"

definition example_market :: Market where
  "example_market =
     \<lparr>id' = ''m1'', type' = PRECIPITATION, location = NYC, yes_price = 0.6, no_price = 0.4,
      resolution_time = 39000, outcome = None\<rparr>"

definition far_market :: Market where
  "far_market =
     \<lparr>id' = ''m2'', type' = PRECIPITATION, location = NYC, yes_price = 0.5, no_price = 0.5,
      resolution_time = 363000, outcome = None\<rparr>"

definition resolved_market :: Market where
  "resolved_market = example_market\<lparr>outcome := Some ''YES''\<rparr>"

definition example_agent :: Agent where
  "example_agent =
     \<lparr>Agent.agent_id = ''a1'', user_id = ''u1'', telegram_chat_id = 7,
      strategy_name = ''Rain'', strategy_config = example_strategy, Agent.status = ACTIVE,
      total_trades = 4, winning_trades = 3, total_pnl = 0.5\<rparr>"

definition paused_agent :: Agent where
  "paused_agent = example_agent\<lparr>Agent.agent_id := ''a2'', Agent.status := PAUSED\<rparr>"

definition example_prediction :: Prediction where
  "example_prediction =
     \<lparr>Prediction.prediction_id = ''p1'', Prediction.agent_id = ''a1'',
      Prediction.market_id = ''m1'', predicted_probability = 0.8, market_probability = 0.6, confidence = ''very_high'',
      edge = 0.2, reasoning = ''front'', recommended_direction = ''YES'',
      Prediction.created_at = 1000, was_correct = None, actual_outcome = None\<rparr>"

definition example_env :: env where
  "example_env =
     \<lparr>uuid4 = (\<lambda>n. replicate (Suc n) CHR ''u''),
      advance = (\<lambda>w. clock w + 1),
      analyze_market =
        (\<lambda>w agent market.
           Inr \<lparr>predictedProbability = 0.8, reply_confidence = ''high'',
                reply_reasoning = ''front'', recommendedDirection = ''YES''\<rparr>),
      create_paper_position = (\<lambda>w request. Created),
      send_message = (\<lambda>w message. True),
      get_active_markets = (\<lambda>w. Inr [example_market])\<rparr>"

definition example_world :: world where
  "example_world =
     \<lparr>agents_table = [example_agent, paused_agent], positions_table = [],
      predictions_table = [], position_queue = [], paper_positions = [],
      bedrock_calls = [], clock = 3000, uuid_counter = 0\<rparr>"

definition example_message :: ExecutionRequest where
  "example_message =
     \<lparr>agentId = Some ''a1'', marketId = Some ''m1'', direction = Some ''YES'',
      size = Some (DecimalText 0.2), entryPrice = Some (DecimalText 0.6),
      predictionId = Some ''p1'', telegramChatId = Some 7, timestamp = Some 3000\<rparr>"

definition paused_message :: ExecutionRequest where
  "paused_message = example_message\<lparr>agentId := Some ''a2''\<rparr>"

definition example_batch :: "sqs_record list" where
  "example_batch =
     [\<lparr>messageId = Some ''id1'', body = Some Malformed\<rparr>,
      \<lparr>messageId = Some ''id2'', body = Some (Parsed paused_message)\<rparr>,
      \<lparr>messageId = Some ''id3'', body = Some (Parsed example_message)\<rparr>,
      \<lparr>messageId = Some ''id4'', body = None\<rparr>]"

definition open_position :: Position where
  "open_position =
     \<lparr>position_id = ''pos1'', Position.agent_id = ''a1'', Position.market_id = ''m1'',
      Position.direction = ''YES'', Position.size = 0.1, entry_price = 0.6,
      Position.status = OPEN, Position.created_at = 3000, updated_at = 3000,
      exit_price = None, pnl = None, Position.prediction_id = Some ''p1''\<rparr>"

definition world_with_position :: world where
  "world_with_position = example_world\<lparr>positions_table := [open_position], clock := 90000\<rparr>"

text \<open>
  A position whose size and entry price have 17 and 16 significant digits, so that their
  exact product needs more than the 28 digits of the context; and a position with the
  direction \<open>dynamic\<close>, on a market whose outcome is the same word.
\<close>

definition precise_position :: Position where
  "precise_position =
     open_position\<lparr>Position.size := 35000000000000005 / 10 ^ 18,
                   entry_price := 6100000000000001 / 10 ^ 16\<rparr>"

definition precise_world :: world where
  "precise_world = example_world\<lparr>positions_table := [precise_position], clock := 90000\<rparr>"

definition dynamic_position :: Position where
  "dynamic_position = open_position\<lparr>Position.direction := ''dynamic''\<rparr>"

definition dynamic_market :: Market where
  "dynamic_market = example_market\<lparr>outcome := Some ''dynamic''\<rparr>"

definition dynamic_world :: world where
  "dynamic_world = example_world\<lparr>positions_table := [dynamic_position], clock := 90000\<rparr>"

text \<open>
  A request that names an agent the agents table does not hold and that carries no size.
\<close>

definition ghost_message :: ExecutionRequest where
  "ghost_message = example_message\<lparr>agentId := Some ''ghost'', size := None\<rparr>"

text \<open>
  A busy agent: one prediction for market \<open>m1\<close> made 2000 seconds ago, and a hundred
  later predictions for a hundred other markets.
\<close>

definition old_prediction :: Prediction where
  "old_prediction = example_prediction\<lparr>Prediction.prediction_id := ''p-old''\<rparr>"

definition other_prediction :: "nat \<Rightarrow> Prediction" where
  "other_prediction i =
     example_prediction
       \<lparr>Prediction.prediction_id := CHR ''q'' # replicate i CHR ''x'',
        Prediction.market_id := CHR ''k'' # replicate i CHR ''x'',
        Prediction.created_at := 2000 + real i\<rparr>"

definition busy_predictions :: "Prediction list" where
  "busy_predictions = map other_prediction (rev [0..<100])"

definition busy_world :: world where
  "busy_world = example_world\<lparr>predictions_table := busy_predictions @ [old_prediction]\<rparr>"

text \<open>
  A world in which the example agent has three predictions, two of them with an outcome.
\<close>

definition scored_world :: world where
  "scored_world =
     example_world
       \<lparr>predictions_table :=
          [example_prediction\<lparr>was_correct := Some True\<rparr>,
           example_prediction\<lparr>was_correct := Some False\<rparr>,
           example_prediction]\<rparr>"

section \<open>Market filtering\<close>

lemma filter_loop_eq:
  "filter_loop ms s now acc = acc @ filter (\<lambda>m. market_selected m s now) ms"
  by (induction ms arbitrary: acc) auto

lemma filter_markets_for_strategy_filter:
  "filter_markets_for_strategy ms s now = filter (\<lambda>m. market_selected m s now) ms"
  by (simp add: filter_markets_for_strategy_def filter_loop_eq)

text \<open>
  Claim C6. A market is in the result of \<open>filter_markets_for_strategy\<close> if and only if
  it is in the input, its type is allowed (or no type is listed), its location is allowed
  (or no location is listed) and, when time horizons are listed, its hours until
  resolution lie in a selected bucket: at most 24 for \<open>same_day\<close>, above 24 and at most
  48 for \<open>next_day\<close>, above 48 and at most 168 for \<open>weekly\<close>. A list that is absent
  from the strategy counts as empty.
\<close>

theorem filter_markets_for_strategy_iff:
  assumes "sel = get_or (marketSelection strat) \<lparr>types = None, locations = None, timeHorizon = None\<rparr>"
    and "allowed_types = get_or (types sel) []"
    and "allowed_locations = get_or (locations sel) []"
    and "horizons = get_or (timeHorizon sel) []"
    and "hours = (resolution_time m - now) / 3600"
  shows "m \<in> set (filter_markets_for_strategy markets strat now) \<longleftrightarrow>
     m \<in> set markets
     \<and> (allowed_types = [] \<or> MarketType_value (type' m) \<in> set allowed_types)
     \<and> (allowed_locations = [] \<or> Location_value (location m) \<in> set allowed_locations)
     \<and> (horizons \<noteq> [] \<longrightarrow>
           (''same_day'' \<in> set horizons \<and> hours \<le> 24)
         \<or> (''next_day'' \<in> set horizons \<and> 24 < hours \<and> hours \<le> 48)
         \<or> (''weekly'' \<in> set horizons \<and> 48 < hours \<and> hours \<le> 168))"
  unfolding filter_markets_for_strategy_filter assms
  by (auto simp: market_selected_def Let_def)

section \<open>Position sizing\<close>

text \<open>
  Claim C2. Whatever the strategy and the prediction, and so under each scaling rule,
  the size returned by \<open>calculate_position_size\<close> is at most the strategy's
  \<open>maxPositionSize\<close> (0.20 when the strategy does not give one).
\<close>

theorem calculate_position_size_le_max:
  "calculate_position_size prediction strat
     \<le> get_or (maxPositionSize (get_or (riskControls strat)
            \<lparr>minConfidence = None, minEdge = None, maxPositionSize = None\<rparr>)) 0.20"
  by (simp add: calculate_position_size_def Let_def)

section \<open>Entry conditions\<close>

lemma evaluate_entry_condition_passes:
  assumes "get_or (cond_field c) []
             \<notin> set [''edge'', ''confidence'', ''market_probability'', ''forecast_probability'']
         \<or> get_or (cond_operator c) [] \<notin> set [''gt'', ''lt'', ''gte'', ''lte'', ''eq'']"
  shows "evaluate_entry_condition c p = Inr True"
  using assms
  by (auto simp: evaluate_entry_condition_def Let_def evaluate_operator_def)

lemma conditions_loop_skip:
  "evaluate_entry_condition c p = Inr True \<Longrightarrow>
   conditions_loop (cs1 @ c # cs2) p = conditions_loop (cs1 @ cs2) p"
  by (induction cs1) (auto split: sum.splits)

text \<open>
  Claim C10. An entry condition whose field is none of \<open>edge\<close>, \<open>confidence\<close>,
  \<open>market_probability\<close>, \<open>forecast_probability\<close>, or whose operator is none of \<open>gt\<close>,
  \<open>lt\<close>, \<open>gte\<close>, \<open>lte\<close>, \<open>eq\<close>, evaluates to true without raising; and the decision
  of \<open>should_open_position\<close> is the same with and without such a condition in the
  list, so it never prevents a position from being opened. An absent field or operator
  is read as the empty string.
\<close>

theorem unrecognised_entry_condition_passes:
  assumes "get_or (cond_field c) []
             \<notin> set [''edge'', ''confidence'', ''market_probability'', ''forecast_probability'']
         \<or> get_or (cond_operator c) [] \<notin> set [''gt'', ''lt'', ''gte'', ''lte'', ''eq'']"
  shows "evaluate_entry_condition c p = Inr True
       \<and> should_open_position p (strat\<lparr>entryConditions := Some (cs1 @ c # cs2)\<rparr>)
           = should_open_position p (strat\<lparr>entryConditions := Some (cs1 @ cs2)\<rparr>)"
proof -
  have t: "evaluate_entry_condition c p = Inr True"
    using assms by (rule evaluate_entry_condition_passes)
  have "conditions_loop (cs1 @ c # cs2) p = conditions_loop (cs1 @ cs2) p"
    using t by (rule conditions_loop_skip)
  then show ?thesis
    using t by (simp add: should_open_position_def Let_def get_or_def)
qed

section \<open>Decimal rounding\<close>

lemma round_half_even_mono: "x \<le> y \<Longrightarrow> round_half_even x \<le> round_half_even y"
proof -
  assume xy: "x \<le> y"
  have fl: "\<lfloor>x\<rfloor> \<le> \<lfloor>y\<rfloor>" using xy by (rule floor_mono)
  have ub: "round_half_even x \<le> \<lfloor>x\<rfloor> + 1" by (simp add: round_half_even_def Let_def)
  have lb: "\<lfloor>y\<rfloor> \<le> round_half_even y" by (simp add: round_half_even_def Let_def)
  show ?thesis
  proof (cases "\<lfloor>x\<rfloor> = \<lfloor>y\<rfloor>")
    case True
    then have "x - of_int \<lfloor>x\<rfloor> \<le> y - of_int \<lfloor>y\<rfloor>" using xy by simp
    then show ?thesis using True by (auto simp: round_half_even_def Let_def)
  next
    case False
    then have "\<lfloor>x\<rfloor> + 1 \<le> \<lfloor>y\<rfloor>" using fl by linarith
    then show ?thesis using ub lb by linarith
  qed
qed

lemma adjusted_eqI:
  assumes "10 powi a \<le> \<bar>x\<bar>" and "\<bar>x\<bar> < 10 powi (a + 1)"
  shows "adjusted x = a"
proof -
  have pos: "0 < \<bar>x\<bar>" using assms(1) by (smt (verit) zero_less_power_int)
  have "(10::real) powr (real_of_int a) \<le> \<bar>x\<bar>" using assms(1) by (simp add: powr_real_of_int')
  moreover have "\<bar>x\<bar> < (10::real) powr (real_of_int a + 1)"
    using assms(2) powr_real_of_int'[of 10 "a + 1"] by simp
  ultimately show ?thesis
    unfolding adjusted_def using floor_log_eq_powr_iff[of "\<bar>x\<bar>" 10 a] pos by simp
qed

lemma adjusted_bounds:
  assumes "x \<noteq> 0"
  shows "10 powi (adjusted x) \<le> \<bar>x\<bar>" and "\<bar>x\<bar> < 10 powi (adjusted x + 1)"
proof -
  have pos: "0 < \<bar>x\<bar>" using assms by simp
  have "(10::real) powr (real_of_int (adjusted x)) \<le> \<bar>x\<bar> \<and> \<bar>x\<bar> < (10::real) powr (real_of_int (adjusted x) + 1)"
    using floor_log_eq_powr_iff[of "\<bar>x\<bar>" 10 "adjusted x"] pos by (simp add: adjusted_def)
  then show "10 powi (adjusted x) \<le> \<bar>x\<bar>" and "\<bar>x\<bar> < 10 powi (adjusted x + 1)"
    using powr_real_of_int'[of 10 "adjusted x"] powr_real_of_int'[of 10 "adjusted x + 1"] by simp_all
qed

lemma round_half_even_of_int [simp]: "round_half_even (of_int n) = n"
  by (simp add: round_half_even_def Let_def)


lemma powi10_less_iff: "(10::real) powi a < 10 powi b \<longleftrightarrow> a < b"
proof
  assume l: "(10::real) powi a < 10 powi b"
  show "a < b"
  proof (rule ccontr)
    assume "\<not> a < b"
    then have "b \<le> a" by simp
    then have "(10::real) powi b \<le> 10 powi a" by (intro power_int_increasing) simp_all
    with l show False by simp
  qed
next
  assume "a < b"
  then show "(10::real) powi a < 10 powi b" by (intro power_int_strict_increasing) simp_all
qed

lemma powi10_le_iff: "(10::real) powi a \<le> 10 powi b \<longleftrightarrow> a \<le> b"
  using powi10_less_iff[of b a] by (simp add: not_less[symmetric])

lemma adjusted_le:
  assumes "r \<noteq> 0" and "\<bar>r\<bar> \<le> 10 powi m"
  shows "adjusted r \<le> m"
  using adjusted_bounds(1)[OF assms(1)] assms(2) powi10_le_iff[of "adjusted r" m] by linarith

lemma adjusted_less:
  assumes "r \<noteq> 0" and "\<bar>r\<bar> < 10 powi m"
  shows "adjusted r < m"
  using adjusted_bounds(1)[OF assms(1)] assms(2) powi10_less_iff[of "adjusted r" m] by linarith

lemma round_half_even_abs_le:
  assumes "\<bar>y\<bar> \<le> of_int n"
  shows "\<bar>round_half_even y\<bar> \<le> n"
proof -
  have "round_half_even y \<le> round_half_even (of_int n)"
    using assms by (intro round_half_even_mono) linarith
  moreover have "round_half_even (of_int (- n)) \<le> round_half_even y"
    using assms by (intro round_half_even_mono) simp
  ultimately show ?thesis
    unfolding round_half_even_of_int by linarith
qed

lemma rounded_le:
  assumes "\<bar>x\<bar> < 10 powi (k + 28)"
  shows "\<bar>of_int (round_half_even (x / 10 powi k)) * 10 powi k\<bar> \<le> (10::real) powi (k + 28)"
proof -
  have q: "(0::real) < 10 powi k" by simp
  have "\<bar>x / 10 powi k\<bar> < 10 powi (k + 28) / 10 powi k"
    using assms q by (simp add: divide_strict_right_mono abs_divide del: zero_less_power_int)
  also have "\<dots> = of_int (10 ^ 28)" by (simp add: power_int_add)
  finally have "\<bar>round_half_even (x / 10 powi k)\<bar> \<le> 10 ^ 28"
    by (intro round_half_even_abs_le) simp
  then have "\<bar>real_of_int (round_half_even (x / 10 powi k))\<bar> \<le> 10 ^ 28"
    by (metis of_int_abs of_int_le_iff of_int_numeral of_int_power)
  then have "\<bar>real_of_int (round_half_even (x / 10 powi k))\<bar> * 10 powi k \<le> 10 ^ 28 * 10 powi k"
    using q by (intro mult_right_mono) simp_all
  then show ?thesis by (simp add: abs_mult power_int_add mult.commute)
qed

lemma context_round_normal:
  assumes "x \<noteq> 0" and "adjusted x < Emax" and "Etiny \<le> adjusted x - 27"
  shows "context_round x
           = Inr (of_int (round_half_even (x / 10 powi (adjusted x - 27))) * 10 powi (adjusted x - 27))"
proof -
  let ?k = "adjusted x - 27"
  let ?r = "of_int (round_half_even (x / 10 powi ?k)) * 10 powi ?k :: real"
  have "?k + 28 = adjusted x + 1" by simp
  then have "\<bar>x\<bar> < 10 powi (?k + 28)" using adjusted_bounds(2)[OF assms(1)] by (simp only:)
  then have "\<bar>?r\<bar> \<le> 10 powi (?k + 28)" by (rule rounded_le)
  then have "?r \<noteq> 0 \<Longrightarrow> adjusted ?r \<le> Emax"
    using adjusted_le[of ?r "?k + 28"] assms(2) by simp
  then show ?thesis
    using assms by (auto simp: context_round_def Let_def max_def)
qed

lemma context_round_exact:
  assumes "x = of_int c * 10 powi e" and "c \<noteq> 0" and "\<bar>c\<bar> < 10 ^ 28"
    and "Etiny \<le> e" and "e + 28 \<le> Emax"
  shows "context_round x = Inr x"
proof -
  have x0: "x \<noteq> 0" using assms(1,2) by simp
  have "\<bar>x\<bar> = of_int \<bar>c\<bar> * 10 powi e" by (simp add: assms(1) abs_mult)
  also have "\<dots> < 10 ^ 28 * 10 powi e"
    using assms(3) by (intro mult_strict_right_mono) (simp_all add: of_int_less_iff[of "\<bar>c\<bar>" "10 ^ 28", simplified, symmetric] del: of_int_abs)
  also have "\<dots> = 10 powi (e + 28)" by (simp add: power_int_add)
  finally have lt: "\<bar>x\<bar> < 10 powi (e + 28)" .
  then have a: "adjusted x < e + 28" using x0 by (rule adjusted_less[rotated])
  let ?k = "max (adjusted x - 27) Etiny"
  have k: "?k \<le> e" using a assms(4) by simp
  have "x / 10 powi ?k = of_int c * 10 powi (e - ?k)"
    by (simp add: assms(1) power_int_diff)
  also have "\<dots> = of_int (c * 10 ^ nat (e - ?k))"
    using k by (simp add: power_int_def)
  finally have "round_half_even (x / 10 powi ?k) = c * 10 ^ nat (e - ?k)"
    by (simp only: round_half_even_of_int)
  then have "of_int (round_half_even (x / 10 powi ?k)) * 10 powi ?k = of_int c * 10 powi (e - ?k) * 10 powi ?k"
    using k by (simp add: power_int_def)
  also have "\<dots> = x" by (simp add: assms(1) power_int_diff)
  finally have r: "of_int (round_half_even (x / 10 powi ?k)) * 10 powi ?k = x" .
  have "adjusted x \<le> Emax" using a assms(5) by simp
  then show ?thesis
    using x0 r by (simp add: context_round_def Let_def)
qed

lemma context_round_representable:
  assumes "representable c e x"
  shows "context_round x = Inr x"
proof (cases "c = 0")
  case True
  then show ?thesis using assms by (simp add: representable_def context_round_def)
next
  case False
  then show ?thesis
    using assms context_round_exact[of x c e] by (simp add: representable_def)
qed

lemma then_do_Inl [simp]: "then_do (Inl err) f = Inl err"
  by (simp add: then_do_def)

lemma then_do_Inr [simp]: "then_do (Inr v) f = f v"
  by (simp add: then_do_def)


section \<open>Position executor\<close>

lemma records_loop_eq:
  "records_loop e records w acc =
     (acc @ map (messageId \<circ> fst)
              (filter (\<lambda>(r, s). raised e r s) (zip records (states_before e records w))),
      foldl (\<lambda>s r. snd (process_record e r s)) w records)"
proof (induction records arbitrary: w acc)
  case Nil
  then show ?case by simp
next
  case (Cons r records)
  obtain res w' where step: "process_record e r w = (res, w')"
    by (cases "process_record e r w")
  show ?case
  proof (cases res)
    case (Inl err)
    with step Cons show ?thesis by (simp add: raised_def)
  next
    case (Inr u)
    with step Cons show ?thesis by (simp add: raised_def)
  qed
qed

text \<open>
  Claim C9. The list of batch item failures returned by the executor's handler holds,
  in order, the message identifier of exactly those records whose processing raised in
  the world the record was processed in; and every record of the batch is processed,
  the world after the batch being the world after each record's processing in turn.
\<close>

theorem batch_item_failures_exact:
  "fst (executor_lambda_handler e records w) =
     map (messageId \<circ> fst)
       (filter (\<lambda>(r, s). raised e r s) (zip records (states_before e records w)))
   \<and> snd (executor_lambda_handler e records w) =
       foldl (\<lambda>s r. snd (process_record e r s)) w records"
  by (simp add: executor_lambda_handler_def records_loop_eq)

lemma AgentStatus_value_active: "AgentStatus_value s = ''active'' \<longleftrightarrow> s = ACTIVE"
  by (cases s) simp_all

lemma execute_position_changes:
  assumes "execute_position e message aid mid dir sz price w = (res, w')"
    and "paper_positions w' \<noteq> paper_positions w \<or> positions_table w' \<noteq> positions_table w"
  shows "\<exists>agent. get_agent w aid = Some agent \<and> Agent.status agent = ACTIVE"
  using assms
  by (auto simp: execute_position_def Let_def AgentStatus_value_active create_position_def
           split: option.splits if_splits api_outcome.splits)

lemma process_position_message_changes:
  assumes "process_position_message e message w = (res, w')"
    and "paper_positions w' \<noteq> paper_positions w \<or> positions_table w' \<noteq> positions_table w"
  shows "\<exists>aid agent. agentId message = Some aid \<and> get_agent w aid = Some agent
           \<and> Agent.status agent = ACTIVE"
  using assms
  by (auto simp: process_position_message_def
           split: option.splits decimal_arg.splits dest: execute_position_changes)

lemma process_position_message_inactive:
  assumes "required_fields_present message"
    and "agentId message = Some aid"
    and "get_agent w aid = None
         \<or> (\<exists>agent. get_agent w aid = Some agent \<and> Agent.status agent \<noteq> ACTIVE)"
  shows "process_position_message e message w = (Inr (), w)"
  using assms
  by (auto simp: process_position_message_def required_fields_present_def is_decimal_def
        execute_position_def AgentStatus_value_active split: option.splits decimal_arg.splits)

lemma process_position_message_incomplete:
  assumes "\<not> required_fields_present message"
  shows "\<exists>err. process_position_message e message w = (Inl err, w)"
  using assms
  by (auto simp: process_position_message_def required_fields_present_def is_decimal_def
           split: option.splits decimal_arg.splits)

text \<open>
  Claim C8, as the code has it. Processing a queue message registers a paper position
  with the market API or writes to the positions table only if the agent named by the
  message is in the agents table with status active. The five required fields are read
  before the agent is looked up. For a message that carries them, if the agent is
  missing or not active, processing returns normally and leaves the world as it was,
  and the handler reports no failure for the record. For a message that lacks one of
  them, processing raises whatever the agent is, the world stays as it was, and the
  handler reports the record as failed.
\<close>

theorem executor_requires_active_agent:
  "(process_position_message e message w = (res, w')
      \<and> (paper_positions w' \<noteq> paper_positions w \<or> positions_table w' \<noteq> positions_table w)
      \<longrightarrow> (\<exists>aid agent. agentId message = Some aid \<and> get_agent w aid = Some agent
             \<and> Agent.status agent = ACTIVE))
   \<and> (required_fields_present message \<and> agentId message = Some aid
      \<and> (get_agent w aid = None
          \<or> (\<exists>agent. get_agent w aid = Some agent \<and> Agent.status agent \<noteq> ACTIVE))
      \<longrightarrow> process_position_message e message w = (Inr (), w)
          \<and> executor_lambda_handler e [\<lparr>messageId = ident, body = Some (Parsed message)\<rparr>] w
              = ([], w))
   \<and> (\<not> required_fields_present message
      \<longrightarrow> isl (fst (process_position_message e message w))
          \<and> snd (process_position_message e message w) = w
          \<and> executor_lambda_handler e [\<lparr>messageId = ident, body = Some (Parsed message)\<rparr>] w
              = ([ident], w))"
proof (intro conjI impI)
  assume "process_position_message e message w = (res, w')
      \<and> (paper_positions w' \<noteq> paper_positions w \<or> positions_table w' \<noteq> positions_table w)"
  then show "\<exists>aid agent. agentId message = Some aid \<and> get_agent w aid = Some agent
             \<and> Agent.status agent = ACTIVE"
    using process_position_message_changes by blast
next
  assume a: "required_fields_present message \<and> agentId message = Some aid
      \<and> (get_agent w aid = None
          \<or> (\<exists>agent. get_agent w aid = Some agent \<and> Agent.status agent \<noteq> ACTIVE))"
  then show p: "process_position_message e message w = (Inr (), w)"
    using process_position_message_inactive by blast
  show "executor_lambda_handler e [\<lparr>messageId = ident, body = Some (Parsed message)\<rparr>] w = ([], w)"
    using p by (simp add: executor_lambda_handler_def process_record_def)
next
  assume "\<not> required_fields_present message"
  then obtain err where r: "process_position_message e message w = (Inl err, w)"
    using process_position_message_incomplete by blast
  show "isl (fst (process_position_message e message w))" using r by simp
  show "snd (process_position_message e message w) = w" using r by simp
  show "executor_lambda_handler e [\<lparr>messageId = ident, body = Some (Parsed message)\<rparr>] w
          = ([ident], w)"
    using r by (simp add: executor_lambda_handler_def process_record_def)
qed

section \<open>Market resolver\<close>

lemma close_record_id [simp]: "position_id (close_record item market t p) = position_id p"
  by (simp add: close_record_def split: sum.splits)

lemma resolve_position_table:
  "positions_table (snd (resolve_position item market w)) =
     map (\<lambda>p. if position_id p = position_id item then close_record item market (clock w) p
               else p)
       (positions_table w)"
proof (cases "position_pnl item market")
  case (Inl err)
  then show ?thesis by (simp add: resolve_position_def Let_def close_record_def cong: if_cong)
next
  case (Inr profit)
  then show ?thesis
    by (simp add: resolve_position_def update_position_status_def Let_def close_record_def)
qed

lemma resolve_position_clock [simp]:
  "clock (snd (resolve_position item market w)) = clock w"
  by (simp add: resolve_position_def update_position_status_def Let_def split: sum.splits)

lemma position_pnl_exact_win:
  assumes "position_won item market"
    and "representable c1 e1 (1 - entry_price item)"
    and "representable c2 e2 (Position.size item * (1 - entry_price item))"
  shows "position_pnl item market = Inr (Position.size item * (1 - entry_price item))"
  using assms context_round_representable[OF assms(2)] context_round_representable[OF assms(3)]
  by (simp add: position_pnl_def Let_def decimal_sub_def decimal_mul_def)

lemma position_pnl_exact_loss:
  assumes "\<not> position_won item market"
    and "representable c1 e1 (- Position.size item)"
    and "representable c2 e2 (- Position.size item * entry_price item)"
  shows "position_pnl item market = Inr (- Position.size item * entry_price item)"
  using assms context_round_representable[OF assms(2)] context_round_representable[OF assms(3)]
  by (simp add: position_pnl_def Let_def decimal_neg_def decimal_mul_def)

lemma resolve_position_closed:
  assumes "position_item \<in> set (positions_table w)"
    and "position_pnl position_item market = Inr profit"
  shows "fst (resolve_position position_item market w) = Inr True"
    and "\<exists>p \<in> set (positions_table (snd (resolve_position position_item market w))).
           position_id p = position_id position_item"
    and "\<forall>p \<in> set (positions_table (snd (resolve_position position_item market w))).
           position_id p = position_id position_item \<longrightarrow>
             Position.status p = CLOSED \<and> pnl p = Some profit
             \<and> exit_price p = Some (if position_won position_item market then 1 else 0)"
proof -
  let ?w' = "snd (resolve_position position_item market w)"
  show "fst (resolve_position position_item market w) = Inr True"
    using assms(2) by (simp add: resolve_position_def Let_def)
  have tbl: "positions_table ?w' =
     map (\<lambda>p. if position_id p = position_id position_item
               then close_record position_item market (clock w) p else p) (positions_table w)"
    by (rule resolve_position_table)
  have "close_record position_item market (clock w) position_item \<in> set (positions_table ?w')"
    unfolding tbl using assms(1) by (auto simp: image_iff intro!: bexI[of _ position_item])
  then show "\<exists>p \<in> set (positions_table ?w'). position_id p = position_id position_item"
    by (intro bexI[of _ "close_record position_item market (clock w) position_item"]) simp_all
  show "\<forall>p \<in> set (positions_table ?w').
           position_id p = position_id position_item \<longrightarrow>
             Position.status p = CLOSED \<and> pnl p = Some profit
             \<and> exit_price p = Some (if position_won position_item market then 1 else 0)"
    unfolding tbl using assms(2) by (auto simp: close_record_def)
qed

text \<open>
  Claim C1, as the code has it. A position wins when its direction and the market's
  outcome are both YES or both NO. The profit/loss is computed in the decimal context:
  for a win, 1 minus the entry price, rounded, times the size, rounded; otherwise the
  negated size, rounded, times the entry price, rounded. It is exactly size times
  (1 - entry price), respectively minus size times entry price, when the intermediate
  and the final value need at most 28 significant digits. When the arithmetic raises,
  \<open>resolve_position\<close> raises and writes nothing; otherwise it returns true and the
  record of the position is closed with this profit/loss and with exit price 1 for a
  win and 0 otherwise.
\<close>

theorem resolve_position_pnl:
  assumes "position_item \<in> set (positions_table w)"
    and "w' = snd (resolve_position position_item market w)"
    and "sz = Position.size position_item"
    and "price = entry_price position_item"
  shows "(position_won position_item market \<longleftrightarrow>
            Position.direction position_item \<in> {''YES'', ''NO''}
            \<and> outcome market = Some (Position.direction position_item))
       \<and> position_pnl position_item market =
           (if position_won position_item market
            then then_do (context_round (1 - price)) (\<lambda>difference. context_round (sz * difference))
            else then_do (context_round (- sz)) (\<lambda>negated. context_round (negated * price)))
       \<and> (position_won position_item market \<and> representable c1 e1 (1 - price)
            \<and> representable c2 e2 (sz * (1 - price))
          \<longrightarrow> position_pnl position_item market = Inr (sz * (1 - price)))
       \<and> (\<not> position_won position_item market \<and> representable c3 e3 (- sz)
            \<and> representable c4 e4 (- sz * price)
          \<longrightarrow> position_pnl position_item market = Inr (- sz * price))
       \<and> (\<forall>err. position_pnl position_item market = Inl err
          \<longrightarrow> resolve_position position_item market w = (Inl err, w))
       \<and> (\<forall>profit. position_pnl position_item market = Inr profit
          \<longrightarrow> fst (resolve_position position_item market w) = Inr True
              \<and> (\<exists>p \<in> set (positions_table w'). position_id p = position_id position_item)
              \<and> (\<forall>p \<in> set (positions_table w').
                    position_id p = position_id position_item \<longrightarrow>
                      Position.status p = CLOSED \<and> pnl p = Some profit
                      \<and> exit_price p
                          = Some (if position_won position_item market then 1 else 0)))"
proof (intro conjI impI allI)
  show "position_won position_item market \<longleftrightarrow>
            Position.direction position_item \<in> {''YES'', ''NO''}
            \<and> outcome market = Some (Position.direction position_item)"
    by (auto simp: position_won_def Let_def)
next
  show "position_pnl position_item market =
           (if position_won position_item market
            then then_do (context_round (1 - price)) (\<lambda>difference. context_round (sz * difference))
            else then_do (context_round (- sz)) (\<lambda>negated. context_round (negated * price)))"
    by (simp add: position_pnl_def Let_def decimal_sub_def decimal_mul_def[abs_def]
          decimal_neg_def assms(3,4))
next
  assume "position_won position_item market \<and> representable c1 e1 (1 - price)
            \<and> representable c2 e2 (sz * (1 - price))"
  then show "position_pnl position_item market = Inr (sz * (1 - price))"
    unfolding assms(3,4) using position_pnl_exact_win by blast
next
  assume "\<not> position_won position_item market \<and> representable c3 e3 (- sz)
            \<and> representable c4 e4 (- sz * price)"
  then show "position_pnl position_item market = Inr (- sz * price)"
    unfolding assms(3,4) using position_pnl_exact_loss by blast
next
  fix err
  assume "position_pnl position_item market = Inl err"
  then show "resolve_position position_item market w = (Inl err, w)"
    by (simp add: resolve_position_def Let_def)
next
  fix profit
  assume p: "position_pnl position_item market = Inr profit"
  show "fst (resolve_position position_item market w) = Inr True"
    using resolve_position_closed(1)[OF assms(1) p] .
  show "\<exists>p \<in> set (positions_table w'). position_id p = position_id position_item"
    unfolding assms(2) using resolve_position_closed(2)[OF assms(1) p] .
  show "\<forall>p \<in> set (positions_table w').
                    position_id p = position_id position_item \<longrightarrow>
                      Position.status p = CLOSED \<and> pnl p = Some profit
                      \<and> exit_price p
                          = Some (if position_won position_item market then 1 else 0)"
    unfolding assms(2) using resolve_position_closed(3)[OF assms(1) p] .
qed

lemma resolve_items_table:
  assumes "distinct (map position_id items)"
  shows "positions_table (resolve_items items market w) =
     map (\<lambda>p. case find (\<lambda>i. position_id i = position_id p) items of
                 None \<Rightarrow> p
               | Some i \<Rightarrow> close_record i market (clock w) p)
       (positions_table w)"
  using assms
proof (induction items arbitrary: w)
  case Nil
  then show ?case by simp
next
  case (Cons item items)
  have d: "distinct (map position_id items)" and n: "position_id item \<notin> position_id ` set items"
    using Cons.prems by auto
  have none: "find (\<lambda>i. position_id i = position_id item) items = None"
    unfolding find_None_iff using n by (metis imageI)
  have step: "(case find (\<lambda>i. position_id i = position_id q) items of
                 None \<Rightarrow> q
               | Some i \<Rightarrow> close_record i market (clock w) q) =
              (case find (\<lambda>i. position_id i = position_id p) (item # items) of
                 None \<Rightarrow> p
               | Some i \<Rightarrow> close_record i market (clock w) p)"
    if "q = (if position_id p = position_id item then close_record item market (clock w) p else p)"
    for p q
  proof (cases "position_id p = position_id item")
    case True
    then show ?thesis using that none by (simp cong: option.case_cong)
  next
    case False
    then have "position_id item \<noteq> position_id p" by simp
    then show ?thesis using that False by (simp cong: option.case_cong)
  qed
  let ?w1 = "snd (resolve_position item market w)"
  let ?G = "\<lambda>xs q. case find (\<lambda>i. position_id i = position_id q) xs of
                 None \<Rightarrow> q
               | Some i \<Rightarrow> close_record i market (clock w) q"
  have "positions_table (resolve_items (item # items) market w) =
          positions_table (resolve_items items market ?w1)"
    by simp
  also have "\<dots> = map (?G items) (positions_table ?w1)"
    using Cons.IH[OF d, of ?w1] by (simp only: resolve_position_clock)
  also have "\<dots> = map (\<lambda>p. ?G items (if position_id p = position_id item
                                   then close_record item market (clock w) p else p))
                      (positions_table w)"
    by (simp only: resolve_position_table map_map comp_def)
  also have "\<dots> = map (?G (item # items)) (positions_table w)"
    by (rule map_cong[OF refl]) (rule step[OF refl])
  finally show ?case .
qed

lemma find_by_key_distinct:
  "distinct (map f xs) \<Longrightarrow> x \<in> set xs \<Longrightarrow> find (\<lambda>y. f y = f x) xs = Some x"
  by (induction xs) (auto simp: image_iff)

lemma find_filter_by_key:
  assumes "distinct (map f xs)" and "x \<in> set xs"
  shows "find (\<lambda>y. f y = f x) (filter Q xs) = (if Q x then Some x else None)"
proof (cases "Q x")
  case True
  have "distinct (map f (filter Q xs))" using assms(1) by (rule distinct_map_filter)
  moreover have "x \<in> set (filter Q xs)" using True assms(2) by simp
  ultimately show ?thesis using True by (simp add: find_by_key_distinct)
next
  case False
  have "\<And>y. y \<in> set xs \<Longrightarrow> f y = f x \<Longrightarrow> y = x"
    using assms by (meson distinct_map inj_onD)
  then have "\<forall>y \<in> set (filter Q xs). f y \<noteq> f x" using False by auto
  then show ?thesis using False by (simp add: find_None_iff)
qed

lemma resolve_market_table:
  assumes "distinct (map position_id (positions_table w))"
  shows "positions_table (resolve_market market w) =
     map (\<lambda>p. if Position.market_id p = id' market \<and> Position.status p = OPEN
               then close_record p market (clock w) p else p)
       (positions_table w)"
proof -
  let ?Q = "\<lambda>p. Position.market_id p = id' market \<and> Position.status p = OPEN"
  have d: "distinct (map position_id (filter ?Q (positions_table w)))"
    using assms by (rule distinct_map_filter)
  show ?thesis
    unfolding resolve_market_def resolve_items_table[OF d]
    by (rule map_cong) (simp_all add: find_filter_by_key[OF assms])
qed

section \<open>Lifecycle of a position record\<close>

lemma queue_position_tables:
  "positions_table (snd (queue_position e agent market prediction strat w)) = positions_table w"
  by (simp add: queue_position_def Let_def)

lemma execute_position_new_open:
  assumes "execute_position e message aid mid dir sz price w = (res, w')"
    and "p \<in> set (positions_table w')" and "p \<notin> set (positions_table w)"
  shows "Position.status p = OPEN"
  using assms
  by (auto simp: execute_position_def Let_def create_position_def Position_create_def
           split: option.splits if_splits api_outcome.splits)

lemma process_position_message_new_open:
  assumes "process_position_message e message w = (res, w')"
    and "p \<in> set (positions_table w')" and "p \<notin> set (positions_table w)"
  shows "Position.status p = OPEN"
  using assms
  by (auto simp: process_position_message_def
           split: option.splits decimal_arg.splits dest: execute_position_new_open)

lemma execute_position_creates:
  assumes "get_agent w aid = Some agent" and "Agent.status agent = ACTIVE"
    and "create_paper_position e w
           \<lparr>paper_agent_id = aid, paper_market_id = mid,
            paper_direction = dir, paper_amount = sz\<rparr> = Created"
  shows "fst (execute_position e message aid mid dir sz price w) = Inr ()"
    and "(Position_create e w aid mid dir sz price (predictionId message))
            \<lparr>Position.status := OPEN\<rparr>
          \<in> set (positions_table (snd (execute_position e message aid mid dir sz price w)))"
  using assms
  by (simp_all add: execute_position_def Let_def create_position_def Position_create_def)

lemma process_position_message_creates:
  assumes "agentId message = Some aid" and "marketId message = Some mid"
    and "ExecutionRequest.direction message = Some dir"
    and "ExecutionRequest.size message = Some (DecimalText sz)"
    and "entryPrice message = Some (DecimalText price)"
    and "get_agent w aid = Some agent" and "Agent.status agent = ACTIVE"
    and "create_paper_position e w
           \<lparr>paper_agent_id = aid, paper_market_id = mid,
            paper_direction = dir, paper_amount = sz\<rparr> = Created"
  shows "fst (process_position_message e message w) = Inr ()"
    and "(Position_create e w aid mid dir sz price (predictionId message))
            \<lparr>Position.status := OPEN\<rparr>
          \<in> set (positions_table (snd (process_position_message e message w)))"
  using assms(1-5) execute_position_creates[OF assms(6-8), where message = message and price = price]
  by (simp_all add: process_position_message_def)

text \<open>
  Claim C7, as the code has it. Queueing a position sends a message and leaves the
  positions table as it was: no record exists while the request is queued. The record
  is written by the executor: for a message that carries the five required fields and
  names an agent that is in the agents table with status active, when the market API
  accepts the paper position, processing returns normally and the positions table holds
  a new record with the fields of the message, a fresh identifier and status open.
  Every record the executor adds is stored with status open. When the resolver handles
  a resolved market, the open positions of that market whose profit/loss the decimal
  context can compute become closed, and every other record keeps its status (position
  identifiers being the table's key, they are distinct).
\<close>

theorem position_record_lifecycle:
  "positions_table (snd (queue_position e agent market prediction strat w)) = positions_table w
   \<and> (agentId message = Some aid \<and> marketId message = Some mid
        \<and> ExecutionRequest.direction message = Some dir
        \<and> ExecutionRequest.size message = Some (DecimalText sz)
        \<and> entryPrice message = Some (DecimalText price)
        \<and> get_agent w aid = Some owner \<and> Agent.status owner = ACTIVE
        \<and> create_paper_position e w
             \<lparr>paper_agent_id = aid, paper_market_id = mid,
              paper_direction = dir, paper_amount = sz\<rparr> = Created
      \<longrightarrow> fst (process_position_message e message w) = Inr ()
          \<and> \<lparr>position_id = uuid4 e (uuid_counter w), Position.agent_id = aid,
              Position.market_id = mid, Position.direction = dir, Position.size = sz,
              entry_price = price, Position.status = OPEN, Position.created_at = clock w,
              updated_at = clock w, exit_price = None, pnl = None,
              Position.prediction_id = predictionId message\<rparr>
            \<in> set (positions_table (snd (process_position_message e message w))))
   \<and> (process_position_message e message w = (res, w')
        \<and> p \<in> set (positions_table w') \<and> p \<notin> set (positions_table w)
      \<longrightarrow> Position.status p = OPEN)
   \<and> (distinct (map position_id (positions_table w))
      \<longrightarrow> map Position.status (positions_table (resolve_market market w))
          = map (\<lambda>p. if Position.market_id p = id' market \<and> Position.status p = OPEN
                        \<and> \<not> isl (position_pnl p market)
                     then CLOSED else Position.status p)
              (positions_table w))"
proof (intro conjI impI)
  show "positions_table (snd (queue_position e agent market prediction strat w)) = positions_table w"
    by (rule queue_position_tables)
next
  assume a: "agentId message = Some aid \<and> marketId message = Some mid
        \<and> ExecutionRequest.direction message = Some dir
        \<and> ExecutionRequest.size message = Some (DecimalText sz)
        \<and> entryPrice message = Some (DecimalText price)
        \<and> get_agent w aid = Some owner \<and> Agent.status owner = ACTIVE
        \<and> create_paper_position e w
             \<lparr>paper_agent_id = aid, paper_market_id = mid,
              paper_direction = dir, paper_amount = sz\<rparr> = Created"
  then show "fst (process_position_message e message w) = Inr ()"
    using process_position_message_creates(1) by blast
  have "(Position_create e w aid mid dir sz price (predictionId message))
            \<lparr>Position.status := OPEN\<rparr>
          \<in> set (positions_table (snd (process_position_message e message w)))"
    using a process_position_message_creates(2) by blast
  then show "\<lparr>position_id = uuid4 e (uuid_counter w), Position.agent_id = aid,
              Position.market_id = mid, Position.direction = dir, Position.size = sz,
              entry_price = price, Position.status = OPEN, Position.created_at = clock w,
              updated_at = clock w, exit_price = None, pnl = None,
              Position.prediction_id = predictionId message\<rparr>
            \<in> set (positions_table (snd (process_position_message e message w)))"
    by (simp add: Position_create_def)
next
  assume "process_position_message e message w = (res, w')
        \<and> p \<in> set (positions_table w') \<and> p \<notin> set (positions_table w)"
  then show "Position.status p = OPEN"
    using process_position_message_new_open by blast
next
  assume d: "distinct (map position_id (positions_table w))"
  show "map Position.status (positions_table (resolve_market market w))
          = map (\<lambda>p. if Position.market_id p = id' market \<and> Position.status p = OPEN
                        \<and> \<not> isl (position_pnl p market)
                     then CLOSED else Position.status p)
              (positions_table w)"
    unfolding resolve_market_table[OF d] map_map
    by (rule map_cong) (auto simp: close_record_def split: sum.splits)
qed


section \<open>Recent predictions in the orchestration cycle\<close>

lemma sorted_find_first:
  "sorted (map k xs) \<Longrightarrow> find P xs = Some e \<Longrightarrow> p \<in> set xs \<Longrightarrow> P p \<Longrightarrow> k e \<le> k p"
  by (induction xs) (auto split: if_splits)

lemma find_exists: "p \<in> set xs \<Longrightarrow> P p \<Longrightarrow> \<exists>e. find P xs = Some e"
  by (cases "find P xs") (auto simp: find_None_iff)

lemma get_predictions_by_agent_sorted:
  "sorted (map (\<lambda>p. - Prediction.created_at p) (get_predictions_by_agent w aid n))"
  unfolding get_predictions_by_agent_def take_map[symmetric]
  by (intro sorted_wrt_take) simp

lemma visible_recent_imp_exists:
  assumes "visible_recent_prediction w (Agent.agent_id agent) (id' market)"
  shows "recent_prediction_exists w agent market"
proof -
  let ?L = "get_predictions_by_agent w (Agent.agent_id agent) 100"
  from assms obtain p where p: "p \<in> set ?L" "Prediction.market_id p = id' market"
      "clock w - Prediction.created_at p < 3600"
    by (auto simp: visible_recent_prediction_def)
  from find_exists[of p ?L "\<lambda>q. Prediction.market_id q = id' market"] p
  obtain e where e: "find (\<lambda>q. Prediction.market_id q = id' market) ?L = Some e" by auto
  have "- Prediction.created_at e \<le> - Prediction.created_at p"
    using sorted_find_first[OF get_predictions_by_agent_sorted e p(1)] p(2) by simp
  then have "clock w - Prediction.created_at e < 3600" using p(3) by simp
  then show ?thesis
    using e by (simp add: recent_prediction_exists_def get_prediction_for_market_def)
qed

lemma process_market_skip:
  "recent_prediction_exists w agent market \<Longrightarrow>
   process_market e agent strat market (w, c, q) = (w\<lparr>clock := advance e w\<rparr>, c, q)"
  by (simp add: process_market_def)

lemma analyze_effect:
  assumes "analyze_market_for_agent e agent market strat w = (r, w1)"
  shows "bedrock_calls w1 = bedrock_calls w @ [(Agent.agent_id agent, id' market)]"
    and "predictions_table w1 = predictions_table w"
    and "position_queue w1 = position_queue w"
    and "r = Inr p \<Longrightarrow>
           Prediction.agent_id p = Agent.agent_id agent \<and> Prediction.market_id p = id' market"
  using assms
  by (auto simp: analyze_market_for_agent_def Let_def split: sum.splits if_splits)

lemma queue_effect:
  assumes "queue_position e agent market prediction strat w = (r, w1)"
  shows "bedrock_calls w1 = bedrock_calls w" and "predictions_table w1 = predictions_table w"
  using assms
  by (auto simp: queue_position_def Let_def split: if_splits)

lemma length_filter_conj_le:
  "length (filter (\<lambda>x. Q x \<and> P x) xs) \<le> length (filter P xs)"
  by (induction xs) auto

lemma create_prediction_effect:
  "bedrock_calls (create_prediction w p) = bedrock_calls w"
  "predictions_for (create_prediction w p) aid mid
     \<le> predictions_for w aid mid
        + (if Prediction.agent_id p = aid \<and> Prediction.market_id p = mid then 1 else 0)"
proof -
  show "bedrock_calls (create_prediction w p) = bedrock_calls w"
    by (simp add: create_prediction_def)
  have "length (filter (\<lambda>q. Prediction.agent_id q = aid \<and> Prediction.market_id q = mid)
           (filter (\<lambda>q. Prediction.prediction_id q \<noteq> Prediction.prediction_id p)
              (predictions_table w)))
        \<le> length (filter (\<lambda>q. Prediction.agent_id q = aid \<and> Prediction.market_id q = mid)
              (predictions_table w))"
    unfolding filter_filter by (rule length_filter_conj_le)
  then show "predictions_for (create_prediction w p) aid mid
     \<le> predictions_for w aid mid
        + (if Prediction.agent_id p = aid \<and> Prediction.market_id p = mid then 1 else 0)"
    by (simp add: predictions_for_def create_prediction_def)
qed

lemma analyse_and_queue_effect:
  assumes "analyse_and_queue e agent strat market (w, c, q) = (w', c', q')"
  shows "bedrock_calls w' = bedrock_calls w @ [(Agent.agent_id agent, id' market)]"
    and "predictions_for w' aid mid
           \<le> predictions_for w aid mid
              + (if Agent.agent_id agent = aid \<and> id' market = mid then 1 else 0)"
proof -
  obtain r w1 where a: "analyze_market_for_agent e agent market strat w = (r, w1)"
    by (cases "analyze_market_for_agent e agent market strat w")
  note ae = analyze_effect[OF a]
  have p1: "predictions_for w1 aid mid = predictions_for w aid mid"
    by (simp add: predictions_for_def ae(2))
  show "bedrock_calls w' = bedrock_calls w @ [(Agent.agent_id agent, id' market)]"
  proof (cases r)
    case (Inl err)
    then show ?thesis using assms a ae(1) by (simp add: analyse_and_queue_def)
  next
    case (Inr p)
    obtain r2 w3
      where qp: "queue_position e agent market p strat (create_prediction w1 p) = (r2, w3)"
      by (cases "queue_position e agent market p strat (create_prediction w1 p)")
    from Inr assms a qp queue_effect(1)[OF qp] show ?thesis
      by (auto simp: analyse_and_queue_def Let_def ae(1) create_prediction_effect(1)
               split: sum.splits bool.splits)
  qed
  show "predictions_for w' aid mid
           \<le> predictions_for w aid mid
              + (if Agent.agent_id agent = aid \<and> id' market = mid then 1 else 0)"
  proof (cases r)
    case (Inl err)
    then show ?thesis using assms a p1 by (simp add: analyse_and_queue_def)
  next
    case (Inr p)
    obtain r2 w3
      where qp: "queue_position e agent market p strat (create_prediction w1 p) = (r2, w3)"
      by (cases "queue_position e agent market p strat (create_prediction w1 p)")
    have ids: "Prediction.agent_id p = Agent.agent_id agent" "Prediction.market_id p = id' market"
      using ae(4)[OF Inr] by simp_all
    have c: "predictions_for (create_prediction w1 p) aid mid
           \<le> predictions_for w aid mid
              + (if Agent.agent_id agent = aid \<and> id' market = mid then 1 else 0)"
      using create_prediction_effect(2)[of w1 p aid mid] by (simp add: p1 ids)
    have "predictions_for w3 aid mid = predictions_for (create_prediction w1 p) aid mid"
      using queue_effect(2)[OF qp] by (simp add: predictions_for_def)
    with c Inr assms a qp show ?thesis
      by (auto simp: analyse_and_queue_def Let_def split: sum.splits bool.splits)
  qed
qed

lemma process_market_effect:
  assumes "process_market e agent strat market (w, c, q) = (w', c', q')"
  shows "calls_for w' aid mid
           \<le> calls_for w aid mid
              + (if Agent.agent_id agent = aid \<and> id' market = mid then 1 else 0)"
    and "predictions_for w' aid mid
           \<le> predictions_for w aid mid
              + (if Agent.agent_id agent = aid \<and> id' market = mid then 1 else 0)"
proof -
  show "calls_for w' aid mid
           \<le> calls_for w aid mid
              + (if Agent.agent_id agent = aid \<and> id' market = mid then 1 else 0)"
  proof (cases "recent_prediction_exists w agent market")
    case True
    then show ?thesis using assms by (auto simp: process_market_def calls_for_def)
  next
    case False
    obtain w2 c2 q2 where aq: "analyse_and_queue e agent strat market (w, c, q) = (w2, c2, q2)"
      by (cases "analyse_and_queue e agent strat market (w, c, q)")
    have "w' = w2\<lparr>clock := advance e w2\<rparr>"
      using assms False aq by (simp add: process_market_def)
    then show ?thesis using analyse_and_queue_effect(1)[OF aq] by (auto simp: calls_for_def)
  qed
  show "predictions_for w' aid mid
           \<le> predictions_for w aid mid
              + (if Agent.agent_id agent = aid \<and> id' market = mid then 1 else 0)"
  proof (cases "recent_prediction_exists w agent market")
    case True
    then show ?thesis using assms by (auto simp: process_market_def predictions_for_def)
  next
    case False
    obtain w2 c2 q2 where aq: "analyse_and_queue e agent strat market (w, c, q) = (w2, c2, q2)"
      by (cases "analyse_and_queue e agent strat market (w, c, q)")
    have "w' = w2\<lparr>clock := advance e w2\<rparr>"
      using assms False aq by (simp add: process_market_def)
    then have "predictions_for w' aid mid = predictions_for w2 aid mid"
      by (simp add: predictions_for_def)
    then show ?thesis using analyse_and_queue_effect(2)[OF aq, of aid mid] by simp
  qed
qed

lemma distinct_key_count:
  "distinct (map f xs) \<Longrightarrow> length (filter (\<lambda>x. f x = k) xs) \<le> 1"
  by (induction xs) (auto simp: image_iff filter_empty_conv)

lemma markets_loop_effect:
  assumes "markets_loop e agent strat markets (w, c, q) = (w', c', q')"
  shows "calls_for w' aid mid
           \<le> calls_for w aid mid
              + (if Agent.agent_id agent = aid
                 then length (filter (\<lambda>m. id' m = mid) markets) else 0)
       \<and> predictions_for w' aid mid
           \<le> predictions_for w aid mid
              + (if Agent.agent_id agent = aid
                 then length (filter (\<lambda>m. id' m = mid) markets) else 0)"
  using assms
proof (induction markets arbitrary: w c q)
  case Nil
  then show ?case by simp
next
  case (Cons market markets)
  obtain w1 c1 q1 where step: "process_market e agent strat market (w, c, q) = (w1, c1, q1)"
    by (cases "process_market e agent strat market (w, c, q)")
  have rest: "markets_loop e agent strat markets (w1, c1, q1) = (w', c', q')"
    using Cons.prems step by simp
  note ih = Cons.IH[OF rest]
  note pe = process_market_effect[OF step, of aid mid]
  show ?case using ih pe by (auto split: if_splits)
qed

lemma process_agent_effect:
  assumes "distinct (map id' markets)"
  shows "calls_for (fst (process_agent e agent markets w)) aid mid
           \<le> calls_for w aid mid + (if Agent.agent_id agent = aid then 1 else 0)
       \<and> predictions_for (fst (process_agent e agent markets w)) aid mid
           \<le> predictions_for w aid mid + (if Agent.agent_id agent = aid then 1 else 0)"
proof -
  let ?rel = "filter_markets_for_strategy markets (strategy_config agent) (clock w)"
  have d: "distinct (map id' ?rel)"
    unfolding filter_markets_for_strategy_filter using assms by (rule distinct_map_filter)
  have one: "length (filter (\<lambda>m. id' m = mid) ?rel) \<le> 1"
    using d by (rule distinct_key_count)
  obtain w' c' q'
    where l: "markets_loop e agent (strategy_config agent) ?rel (w, 0, 0) = (w', c', q')"
    by (cases "markets_loop e agent (strategy_config agent) ?rel (w, 0, 0)")
  have pa: "fst (process_agent e agent markets w) = (if ?rel = [] then w else w')"
    by (simp add: process_agent_def Let_def l)
  show ?thesis
  proof (cases "?rel = []")
    case True
    then show ?thesis using pa by simp
  next
    case False
    then have "fst (process_agent e agent markets w) = w'" using pa by simp
    then show ?thesis
      using markets_loop_effect[OF l, of aid mid] one by (auto split: if_splits)
  qed
qed

lemma agents_loop_effect:
  assumes "distinct (map id' markets)"
  shows "calls_for (agents_loop e agents markets w) aid mid
           \<le> calls_for w aid mid + length (filter (\<lambda>a. Agent.agent_id a = aid) agents)
       \<and> predictions_for (agents_loop e agents markets w) aid mid
           \<le> predictions_for w aid mid + length (filter (\<lambda>a. Agent.agent_id a = aid) agents)"
proof (induction agents arbitrary: w)
  case Nil
  then show ?case by simp
next
  case (Cons agent agents)
  note pa = process_agent_effect[OF assms, of e agent w aid mid]
  note ih = Cons.IH[of "fst (process_agent e agent markets w)"]
  show ?case using pa ih by (auto split: if_splits)
qed

lemma orchestrator_effect:
  assumes "distinct (map Agent.agent_id (agents_table w))"
    and "\<And>markets. get_active_markets e w = Inr markets \<Longrightarrow> distinct (map id' markets)"
  shows "calls_for (orchestrator_lambda_handler e w) aid mid \<le> calls_for w aid mid + 1
       \<and> predictions_for (orchestrator_lambda_handler e w) aid mid
           \<le> predictions_for w aid mid + 1"
proof -
  have d: "distinct (map Agent.agent_id (get_active_agents w))"
    unfolding get_active_agents_def using assms(1) by (rule distinct_map_filter)
  have one: "length (filter (\<lambda>a. Agent.agent_id a = aid) (get_active_agents w)) \<le> 1"
    using d by (rule distinct_key_count)
  show ?thesis
  proof (cases "get_active_markets e w")
    case (Inl err)
    then show ?thesis by (simp add: orchestrator_lambda_handler_def Let_def)
  next
    case (Inr markets)
    note al = agents_loop_effect[OF assms(2)[OF Inr], of e "get_active_agents w" w aid mid]
    show ?thesis using Inr al one
      by (auto simp: orchestrator_lambda_handler_def Let_def)
  qed
qed

section \<open>Leaderboard score\<close>

lemma py_truediv_by_decimal:
  "(\<exists>err. py_truediv a (PyDecimal t) = Inl err) \<or> (\<exists>d. py_truediv a (PyDecimal t) = Inr (PyDecimal d))"
  by (cases a; cases "decimal_div (py_real a) t") (auto simp: then_do_def)

lemma py_truediv_of_decimal:
  "(\<exists>err. py_truediv (PyDecimal t) (PyInt n) = Inl err)
     \<or> (\<exists>d. py_truediv (PyDecimal t) (PyInt n) = Inr (PyDecimal d))"
  by (cases "decimal_div t (of_int n)") (auto simp: then_do_def)

lemma leaderboard_score_decimal_counter:
  assumes "item_totalTrades item = Some (PyDecimal t)" and "0 < t"
  shows "isl (leaderboard_score w item)"
proof -
  let ?win = "py_truediv (get_or (item_winningTrades item) (PyInt 0)) (PyDecimal t)"
  let ?ps = "get_predictions_by_agent w (get_or (item_agentId item) []) 100"
  let ?acc = "if int (length (filter (\<lambda>p. was_correct p \<noteq> None) ?ps)) > 0
              then py_truediv (PyInt (int (length (filter (\<lambda>p. was_correct p = Some True) ?ps))))
                     (PyInt (int (length (filter (\<lambda>p. was_correct p \<noteq> None) ?ps))))
              else Inr (PyInt 0)"
  let ?hun = "py_truediv (PyDecimal t) (PyInt 100)"
  have acc: "\<exists>v. ?acc = Inr v" by auto
  then obtain v where v: "?acc = Inr v" ..
  from py_truediv_by_decimal[of "get_or (item_winningTrades item) (PyInt 0)" t]
  show ?thesis
  proof
    assume "\<exists>err. ?win = Inl err"
    then obtain err where "?win = Inl err" ..
    then show ?thesis using assms by (simp add: leaderboard_score_def Let_def get_or_def)
  next
    assume "\<exists>d. ?win = Inr (PyDecimal d)"
    then obtain d where d: "?win = Inr (PyDecimal d)" ..
    from py_truediv_of_decimal[of t 100] show ?thesis
    proof
      assume "\<exists>err. ?hun = Inl err"
      then obtain err where h: "?hun = Inl err" ..
      show ?thesis
        using assms d h v unfolding leaderboard_score_def Let_def
        by (simp add: get_or_def del: py_truediv.simps not_None_eq)
    next
      assume "\<exists>h. ?hun = Inr (PyDecimal h)"
      then obtain h where h: "?hun = Inr (PyDecimal h)" ..
      show ?thesis
        using assms d h v unfolding leaderboard_score_def Let_def
        by (simp add: get_or_def del: py_truediv.simps not_None_eq)
    qed
  qed
qed

lemma three_quarters: "context_round (3 / 4) = Inr (3 / 4)"
  by (rule context_round_exact[where c = 75 and e = "- 2"]) (simp_all add: Etiny_def Emax_def)


lemma one_twentyfifth: "context_round (1 / 25) = Inr (1 / 25)"
  by (rule context_round_exact[where c = 4 and e = "- 2"]) (simp_all add: Etiny_def Emax_def)

text \<open>
  Claim C4 fails on the code. The handler reads the agents from a table scan, which
  returns the counters \<open>totalTrades\<close> and \<open>winningTrades\<close> as \<open>Decimal\<close> numbers. For
  every agent the scan keeps, that is every agent with at least one trade, the win
  rate is then a \<open>Decimal\<close> and its product with the float weight 0.4 raises: no score
  is computed, whatever the agent's trades, profit and predictions.
\<close>

theorem leaderboard_score_raises:
  "(a \<in> set (agents_table w) \<and> 0 < total_trades a
      \<longrightarrow> scan_item a \<in> set (agents_to_rank w))
   \<and> (0 < total_trades a \<longrightarrow> isl (leaderboard_score w (scan_item a)))"
proof (intro conjI impI)
  assume "a \<in> set (agents_table w) \<and> 0 < total_trades a"
  then show "scan_item a \<in> set (agents_to_rank w)"
    by (simp add: agents_to_rank_def)
next
  assume "0 < total_trades a"
  then show "isl (leaderboard_score w (scan_item a))"
    by (intro leaderboard_score_decimal_counter[where t = "of_int (total_trades a)"])
       (simp_all add: scan_item_def)
qed


section \<open>Concrete instances\<close>

text \<open>
  Claim C6 at a concrete strategy: a market that resolves in 10 hours passes the
  \<open>same_day\<close> horizon, one that resolves in 100 hours is dropped.
\<close>

theorem filter_markets_for_strategy_iff_witness:
  "example_market \<in> set (filter_markets_for_strategy [example_market, far_market] example_strategy 3000)
   \<and> far_market \<notin> set (filter_markets_for_strategy [example_market, far_market] example_strategy 3000)"
  using filter_markets_for_strategy_iff[where m = example_market
          and markets = "[example_market, far_market]" and strat = example_strategy and now = 3000,
          OF refl refl refl refl refl]
        filter_markets_for_strategy_iff[where m = far_market
          and markets = "[example_market, far_market]" and strat = example_strategy and now = 3000,
          OF refl refl refl refl refl]
  by (simp add: example_strategy_def example_market_def far_market_def get_or_def)

text \<open>
  Claim C2 at a concrete strategy: a base size of 0.15 doubled by the confidence tier
  stays within the maximum of 0.20.
\<close>

theorem calculate_position_size_le_max_witness:
  "calculate_position_size example_prediction example_strategy \<le> 0.20"
  using calculate_position_size_le_max[of example_prediction example_strategy]
  by (simp add: example_strategy_def get_or_def)

text \<open>
  Claim C10 at the field \<open>temperature_delta\<close> with the operator \<open>between\<close>.
\<close>

theorem unrecognised_entry_condition_passes_witness:
  "evaluate_entry_condition
     \<lparr>cond_field = Some ''temperature_delta'', cond_operator = Some ''between'', cond_value = Num 5\<rparr>
     example_prediction = Inr True
   \<and> should_open_position example_prediction example_strategy
       = should_open_position example_prediction (example_strategy\<lparr>entryConditions := Some []\<rparr>)"
proof -
  let ?c = "\<lparr>cond_field = Some ''temperature_delta'', cond_operator = Some ''between'', cond_value = Num 5\<rparr>"
  have h: "get_or (cond_field ?c) []
             \<notin> set [''edge'', ''confidence'', ''market_probability'', ''forecast_probability'']
         \<or> get_or (cond_operator ?c) [] \<notin> set [''gt'', ''lt'', ''gte'', ''lte'', ''eq'']"
    by (simp add: get_or_def)
  have e: "example_strategy\<lparr>entryConditions := Some ([] @ ?c # [])\<rparr> = example_strategy"
    by (simp add: example_strategy_def)
  from unrecognised_entry_condition_passes[OF h, where p = example_prediction
         and strat = example_strategy and ?cs1.0 = "[]" and ?cs2.0 = "[]"]
  show ?thesis unfolding e by simp
qed

lemmas example_defs =
  example_strategy_def example_market_def example_agent_def paused_agent_def
  example_prediction_def example_env_def example_world_def example_message_def
  paused_message_def resolved_market_def open_position_def world_with_position_def

lemma process_example_message:
  "process_position_message example_env example_message example_world =
     (Inr (),
      example_world
        \<lparr>positions_table :=
           [\<lparr>position_id = ''u'', Position.agent_id = ''a1'', Position.market_id = ''m1'',
             Position.direction = ''YES'', Position.size = 0.2, entry_price = 0.6,
             Position.status = OPEN, Position.created_at = 3000, updated_at = 3000,
             exit_price = None, pnl = None, Position.prediction_id = Some ''p1''\<rparr>],
         paper_positions :=
           [\<lparr>paper_agent_id = ''a1'', paper_market_id = ''m1'', paper_direction = ''YES'',
             paper_amount = 0.2\<rparr>],
         uuid_counter := 1\<rparr>)"
  by (simp add: process_position_message_def execute_position_def get_agent_def
        create_position_def Position_create_def Let_def example_defs)

lemma process_paused_message:
  "process_position_message example_env paused_message example_world = (Inr (), example_world)"
  by (simp add: process_position_message_def execute_position_def get_agent_def
        Let_def example_defs)

lemma process_empty_message:
  "process_position_message e empty_message w = (Inl (KeyError ''agentId''), w)"
  by (simp add: process_position_message_def empty_message_def)

text \<open>
  Claim C9 at a batch of four records: a body that is not JSON, a request of a paused
  agent, a request of an active agent and a record without body.
\<close>

theorem batch_item_failures_exact_witness:
  "fst (executor_lambda_handler example_env example_batch example_world)
     = [Some ''id1'', Some ''id4'']"
  using batch_item_failures_exact[of example_env example_batch example_world]
  by (simp add: example_batch_def raised_def process_record_def process_example_message
        process_paused_message process_empty_message)

text \<open>
  Claim C8, as the code has it, at a request of an active agent, at a request of a
  paused agent and at a message without any field.
\<close>

theorem executor_requires_active_agent_witness:
  "(\<exists>aid agent. agentId example_message = Some aid \<and> get_agent example_world aid = Some agent
        \<and> Agent.status agent = ACTIVE)
   \<and> process_position_message example_env paused_message example_world = (Inr (), example_world)
   \<and> executor_lambda_handler example_env
        [\<lparr>messageId = Some ''id2'', body = Some (Parsed paused_message)\<rparr>] example_world
       = ([], example_world)
   \<and> executor_lambda_handler example_env
        [\<lparr>messageId = Some ''id4'', body = Some (Parsed empty_message)\<rparr>] example_world
       = ([Some ''id4''], example_world)"
proof -
  let ?r = "process_position_message example_env example_message example_world"
  have h1: "process_position_message example_env example_message example_world = (fst ?r, snd ?r)
      \<and> (paper_positions (snd ?r) \<noteq> paper_positions example_world
          \<or> positions_table (snd ?r) \<noteq> positions_table example_world)"
    by (simp add: process_example_message) (simp add: example_world_def)
  have h2: "required_fields_present paused_message \<and> agentId paused_message = Some ''a2''
      \<and> (get_agent example_world ''a2'' = None
          \<or> (\<exists>agent. get_agent example_world ''a2'' = Some agent \<and> Agent.status agent \<noteq> ACTIVE))"
    by (simp add: required_fields_present_def is_decimal_def get_agent_def example_defs)
  have h3: "\<not> required_fields_present empty_message"
    by (simp add: required_fields_present_def empty_message_def)
  from executor_requires_active_agent[where e = example_env and message = example_message
         and w = example_world and res = "fst ?r" and w' = "snd ?r",
         THEN conjunct1, rule_format, OF h1]
       executor_requires_active_agent[where e = example_env and message = paused_message
         and w = example_world and aid = "''a2''" and ident = "Some ''id2''",
         THEN conjunct2, THEN conjunct1, rule_format, OF h2]
       executor_requires_active_agent[where e = example_env and message = empty_message
         and w = example_world and ident = "Some ''id4''",
         THEN conjunct2, THEN conjunct2, rule_format, OF h3]
  show ?thesis by simp
qed

text \<open>
  Claim C8 as the specification states it fails: a request that names an agent the
  agents table does not hold, and that carries no size, is reported as a failure of
  the batch, because the size is read before the agent is looked up.
\<close>

theorem executor_requires_active_agent_counterexample:
  "agentId ghost_message = Some ''ghost''
   \<and> get_agent example_world ''ghost'' = None
   \<and> process_position_message example_env ghost_message example_world
       = (Inl (KeyError ''size''), example_world)
   \<and> executor_lambda_handler example_env
        [\<lparr>messageId = Some ''id5'', body = Some (Parsed ghost_message)\<rparr>] example_world
       = ([Some ''id5''], example_world)"
  by (simp add: executor_lambda_handler_def process_record_def process_position_message_def
        get_agent_def ghost_message_def example_defs)

lemma two_fifths: "representable 4 (- 1) (1 - entry_price open_position)"
  by (simp add: representable_def open_position_def Etiny_def Emax_def)

lemma one_twentyfifth_of_size:
  "representable 4 (- 2) (Position.size open_position * (1 - entry_price open_position))"
  by (simp add: representable_def open_position_def Etiny_def Emax_def)

text \<open>
  Claim C1, as the code has it, at a YES position of size 0.1 bought at 0.6 on a market
  that resolves YES: the profit is exactly 0.04.
\<close>

theorem resolve_position_pnl_witness:
  "position_won open_position resolved_market
   \<and> position_pnl open_position resolved_market = Inr 0.04
   \<and> fst (resolve_position open_position resolved_market world_with_position) = Inr True
   \<and> (\<exists>p \<in> set (positions_table
                  (snd (resolve_position open_position resolved_market world_with_position))).
        position_id p = ''pos1'' \<and> Position.status p = CLOSED
        \<and> pnl p = Some 0.04 \<and> exit_price p = Some 1)"
proof -
  let ?w' = "snd (resolve_position open_position resolved_market world_with_position)"
  have h1: "open_position \<in> set (positions_table world_with_position)"
    by (simp add: world_with_position_def)
  have won: "position_won open_position resolved_market"
    by (simp add: position_won_def open_position_def resolved_market_def)
  note t = resolve_position_pnl[where position_item = open_position
      and market = resolved_market and w = world_with_position
      and ?c1.0 = 4 and ?e1.0 = "- 1" and ?c2.0 = 4 and ?e2.0 = "- 2", OF h1 refl refl refl]
  have profit: "position_pnl open_position resolved_market
                  = Inr (Position.size open_position * (1 - entry_price open_position))"
    using t won two_fifths one_twentyfifth_of_size by blast
  then have profit': "position_pnl open_position resolved_market = Inr 0.04"
    by (simp add: open_position_def)
  have r: "fst (resolve_position open_position resolved_market world_with_position) = Inr True"
    using t profit' by blast
  have ex: "\<exists>p \<in> set (positions_table ?w'). position_id p = position_id open_position"
    using t profit' by blast
  have al: "\<forall>p \<in> set (positions_table ?w').
              position_id p = position_id open_position \<longrightarrow>
                Position.status p = CLOSED \<and> pnl p = Some 0.04
                \<and> exit_price p
                    = Some (if position_won open_position resolved_market then 1 else 0)"
    using t profit' by blast
  from ex obtain p where p: "p \<in> set (positions_table ?w')"
      "position_id p = position_id open_position" by blast
  have "position_id p = ''pos1'' \<and> Position.status p = CLOSED
        \<and> pnl p = Some 0.04 \<and> exit_price p = Some 1"
    using al p won by (simp add: open_position_def)
  then show ?thesis using won profit' r p(1) by blast
qed

lemma precise_difference:
  "context_round (1 - entry_price precise_position) = Inr (3899999999999999 / 10 ^ 16)"
proof -
  have e: "1 - entry_price precise_position = of_int 3899999999999999 * 10 powi (- 16)"
    by (simp add: precise_position_def open_position_def power_int_minus field_simps)
  have "context_round (of_int 3899999999999999 * 10 powi (- 16))
          = Inr (of_int 3899999999999999 * 10 powi (- 16))"
    by (rule context_round_exact[where c = 3899999999999999 and e = "- 16"])
       (simp_all add: Etiny_def Emax_def)
  then show ?thesis unfolding e by (simp add: power_int_minus field_simps)
qed

lemma precise_product_adjusted:
  "adjusted (Position.size precise_position * (3899999999999999 / 10 ^ 16)) = - 2"
  by (rule adjusted_eqI) (simp_all add: precise_position_def open_position_def power_int_minus)

lemma precise_product:
  "context_round (Position.size precise_position * (3899999999999999 / 10 ^ 16))
     = Inr (1364999999999999845 / 10 ^ 20)"
proof -
  let ?x = "Position.size precise_position * (3899999999999999 / 10 ^ 16)"
  have x: "?x / 10 powi (- 29) = 136499999999999984499999999999995 / 100000"
    by (simp add: precise_position_def open_position_def power_int_minus)
  have f: "\<lfloor>136499999999999984499999999999995 / 100000 :: real\<rfloor> = 1364999999999999844999999999"
    by simp
  have r: "round_half_even (?x / 10 powi (- 29)) = 1364999999999999845000000000"
    unfolding x by (simp add: round_half_even_def Let_def f)
  have "context_round ?x
          = Inr (of_int (round_half_even (?x / 10 powi (adjusted ?x - 27)))
                   * 10 powi (adjusted ?x - 27))"
  proof (rule context_round_normal)
    show "?x \<noteq> 0" by (simp add: precise_position_def open_position_def)
    show "adjusted ?x < Emax" by (simp only: precise_product_adjusted Emax_def)
    show "Etiny \<le> adjusted ?x - 27" by (simp only: precise_product_adjusted Etiny_def)
  qed
  then show ?thesis
    unfolding precise_product_adjusted using r by (simp add: power_int_minus)
qed

lemma precise_pnl:
  "position_pnl precise_position resolved_market = Inr (1364999999999999845 / 10 ^ 20)"
proof -
  have won: "position_won precise_position resolved_market"
    by (simp add: position_won_def precise_position_def open_position_def resolved_market_def)
  have "position_pnl precise_position resolved_market
          = then_do (context_round (1 - entry_price precise_position))
              (\<lambda>difference. context_round (Position.size precise_position * difference))"
    using won by (simp add: position_pnl_def Let_def decimal_sub_def decimal_mul_def[abs_def])
  also have "\<dots> = context_round (Position.size precise_position * (3899999999999999 / 10 ^ 16))"
    unfolding precise_difference by (simp only: then_do_Inr)
  finally show ?thesis unfolding precise_product .
qed

lemma minus_three_fiftieths: "context_round (- (3 / 50)) = Inr (- (3 / 50))"
  by (rule context_round_exact[where c = "- 6" and e = "- 2"]) (simp_all add: Etiny_def Emax_def)

lemma minus_one_tenth: "context_round (- (1 / 10)) = Inr (- (1 / 10))"
  by (rule context_round_exact[where c = "- 1" and e = "- 1"]) (simp_all add: Etiny_def Emax_def)

lemma dynamic_pnl: "position_pnl dynamic_position dynamic_market = Inr (- (3 / 50))"
  by (simp add: position_pnl_def position_won_def Let_def decimal_neg_def decimal_mul_def
        dynamic_position_def dynamic_market_def open_position_def example_market_def
        minus_one_tenth minus_three_fiftieths)

text \<open>
  Claim C1 as the specification states it fails twice. A YES position of size
  0.035000000000000005 bought at 0.6100000000000001 on a market that resolves YES is
  closed with the profit 0.01364999999999999845, which is the product of the size with
  1 minus the entry price rounded to 28 digits, not the product itself. And a position
  whose direction is \<open>dynamic\<close>, on a market whose outcome is the same word, is closed
  as a loss, although its direction matches the outcome.
\<close>

theorem resolve_position_pnl_counterexample:
  "Position.direction precise_position = ''YES''
   \<and> outcome resolved_market = Some ''YES''
   \<and> map pnl (positions_table
                (snd (resolve_position precise_position resolved_market precise_world)))
       = [Some (1364999999999999845 / 10 ^ 20)]
   \<and> Position.size precise_position * (1 - entry_price precise_position)
       = 136499999999999984499999999999995 / 10 ^ 34
   \<and> (1364999999999999845 / 10 ^ 20 :: real) \<noteq> 136499999999999984499999999999995 / 10 ^ 34
   \<and> outcome dynamic_market = Some (Position.direction dynamic_position)
   \<and> Position.size dynamic_position * (1 - entry_price dynamic_position) = 1 / 25
   \<and> map pnl (positions_table
                (snd (resolve_position dynamic_position dynamic_market dynamic_world)))
       = [Some (- (3 / 50))]
   \<and> map exit_price (positions_table
                (snd (resolve_position dynamic_position dynamic_market dynamic_world)))
       = [Some 0]"
proof -
  have a: "Position.direction precise_position = ''YES''
   \<and> outcome resolved_market = Some ''YES''
   \<and> Position.size precise_position * (1 - entry_price precise_position)
       = 136499999999999984499999999999995 / 10 ^ 34
   \<and> (1364999999999999845 / 10 ^ 20 :: real) \<noteq> 136499999999999984499999999999995 / 10 ^ 34
   \<and> outcome dynamic_market = Some (Position.direction dynamic_position)
   \<and> Position.size dynamic_position * (1 - entry_price dynamic_position) = 1 / 25"
    by (simp add: precise_position_def dynamic_position_def dynamic_market_def
          open_position_def resolved_market_def example_market_def)
  have b: "map pnl (positions_table
                (snd (resolve_position precise_position resolved_market precise_world)))
       = [Some (1364999999999999845 / 10 ^ 20)]"
    by (simp add: resolve_position_table close_record_def precise_pnl precise_world_def)
  have nw: "\<not> position_won dynamic_position dynamic_market"
    by (simp add: position_won_def dynamic_position_def dynamic_market_def open_position_def)
  have c: "map pnl (positions_table
                (snd (resolve_position dynamic_position dynamic_market dynamic_world)))
       = [Some (- (3 / 50))]
   \<and> map exit_price (positions_table
                (snd (resolve_position dynamic_position dynamic_market dynamic_world)))
       = [Some 0]"
    by (simp add: resolve_position_table close_record_def dynamic_pnl dynamic_world_def nw)
  from a b c show ?thesis by blast
qed

lemma queue_example_position:
  "queue_position example_env example_agent example_market example_prediction example_strategy
     example_world
   = (Inr (), example_world\<lparr>position_queue := [example_message]\<rparr>)"
  by (simp add: queue_position_def calculate_position_size_def confidence_multiplier_def
        dict_get_def get_or_def Let_def example_defs)

text \<open>
  Claim C7 as the specification states it fails: after a position has been queued the
  positions table holds no record at all, so none with status pending, and the record
  the executor writes for the queued request is open from the start.
\<close>

theorem position_record_lifecycle_counterexample:
  "fst (queue_position example_env example_agent example_market example_prediction
          example_strategy example_world) = Inr ()
   \<and> position_queue (snd (queue_position example_env example_agent example_market
          example_prediction example_strategy example_world)) = [example_message]
   \<and> positions_table (snd (queue_position example_env example_agent example_market
          example_prediction example_strategy example_world)) = []
   \<and> map Position.status
         (positions_table (snd (process_position_message example_env example_message
            example_world))) = [OPEN]"
  by (simp add: queue_example_position process_example_message) (simp add: example_world_def)

lemma resolve_example_market:
  "distinct (map position_id (positions_table world_with_position))"
  by (simp add: world_with_position_def)

lemma open_position_pnl: "position_pnl open_position resolved_market = Inr 0.04"
proof -
  have won: "position_won open_position resolved_market"
    by (simp add: position_won_def open_position_def resolved_market_def)
  from position_pnl_exact_win[OF won two_fifths one_twentyfifth_of_size]
  show ?thesis by (simp add: open_position_def)
qed

text \<open>
  Claim C7, as the code has it, at the concrete request and the concrete resolved
  market.
\<close>

theorem position_record_lifecycle_witness:
  "positions_table (snd (queue_position example_env example_agent example_market
          example_prediction example_strategy example_world)) = positions_table example_world
   \<and> fst (process_position_message example_env example_message example_world) = Inr ()
   \<and> \<lparr>position_id = ''u'', Position.agent_id = ''a1'', Position.market_id = ''m1'',
       Position.direction = ''YES'', Position.size = 0.2, entry_price = 0.6,
       Position.status = OPEN, Position.created_at = 3000, updated_at = 3000,
       exit_price = None, pnl = None, Position.prediction_id = Some ''p1''\<rparr>
      \<in> set (positions_table (snd (process_position_message example_env example_message
            example_world)))
   \<and> Position.status
        (hd (positions_table (snd (process_position_message example_env example_message
            example_world)))) = OPEN
   \<and> map Position.status (positions_table (resolve_market resolved_market world_with_position))
       = [CLOSED]"
proof -
  let ?r = "process_position_message example_env example_message example_world"
  let ?p = "hd (positions_table (snd ?r))"
  have h1: "agentId example_message = Some ''a1'' \<and> marketId example_message = Some ''m1''
        \<and> ExecutionRequest.direction example_message = Some ''YES''
        \<and> ExecutionRequest.size example_message = Some (DecimalText 0.2)
        \<and> entryPrice example_message = Some (DecimalText 0.6)
        \<and> get_agent example_world ''a1'' = Some example_agent
        \<and> Agent.status example_agent = ACTIVE
        \<and> create_paper_position example_env example_world
             \<lparr>paper_agent_id = ''a1'', paper_market_id = ''m1'',
              paper_direction = ''YES'', paper_amount = 0.2\<rparr> = Created"
    by (simp add: get_agent_def example_defs)
  have h2: "process_position_message example_env example_message example_world = (fst ?r, snd ?r)
        \<and> ?p \<in> set (positions_table (snd ?r)) \<and> ?p \<notin> set (positions_table example_world)"
    by (simp add: process_example_message) (simp add: example_world_def)
  note t = position_record_lifecycle[where e = example_env and agent = example_agent
      and market = resolved_market and prediction = example_prediction
      and strat = example_strategy and w = world_with_position]
  note t1 = position_record_lifecycle[where e = example_env and agent = example_agent
      and market = example_market and prediction = example_prediction
      and strat = example_strategy and w = example_world and message = example_message
      and res = "fst ?r" and w' = "snd ?r" and p = ?p and aid = "''a1''" and mid = "''m1''"
      and dir = "''YES''" and sz = "0.2" and price = "0.6" and owner = example_agent]
  have a: "positions_table (snd (queue_position example_env example_agent example_market
          example_prediction example_strategy example_world)) = positions_table example_world"
    using t1 by blast
  have b: "Position.status ?p = OPEN"
    using t1 h2 by blast
  have "fst ?r = Inr ()
      \<and> \<lparr>position_id = uuid4 example_env (uuid_counter example_world),
          Position.agent_id = ''a1'', Position.market_id = ''m1'',
          Position.direction = ''YES'', Position.size = 0.2, entry_price = 0.6,
          Position.status = OPEN, Position.created_at = clock example_world,
          updated_at = clock example_world, exit_price = None, pnl = None,
          Position.prediction_id = predictionId example_message\<rparr>
        \<in> set (positions_table (snd ?r))"
    using t1 h1 by blast
  then have n: "fst ?r = Inr ()
      \<and> \<lparr>position_id = ''u'', Position.agent_id = ''a1'', Position.market_id = ''m1'',
          Position.direction = ''YES'', Position.size = 0.2, entry_price = 0.6,
          Position.status = OPEN, Position.created_at = 3000, updated_at = 3000,
          exit_price = None, pnl = None, Position.prediction_id = Some ''p1''\<rparr>
        \<in> set (positions_table (snd ?r))"
    by (simp add: example_env_def example_world_def example_message_def)
  have "map Position.status (positions_table (resolve_market resolved_market world_with_position))
       = map (\<lambda>p. if Position.market_id p = id' resolved_market \<and> Position.status p = OPEN
                       \<and> \<not> isl (position_pnl p resolved_market)
                     then CLOSED else Position.status p)
              (positions_table world_with_position)"
    using t resolve_example_market by blast
  then have c: "map Position.status (positions_table (resolve_market resolved_market world_with_position))
       = [CLOSED]"
    by (simp add: world_with_position_def open_position_pnl)
       (simp add: open_position_def resolved_market_def example_market_def)
  from a b n c show ?thesis by blast
qed

text \<open>
  Claim C4 at the example agent, which has four trades: the scan keeps it and its score
  computation stops with a type error.
\<close>

theorem leaderboard_score_raises_witness:
  "scan_item example_agent \<in> set (agents_to_rank scored_world)
   \<and> isl (leaderboard_score scored_world (scan_item example_agent))
   \<and> leaderboard_score scored_world (scan_item example_agent) = Inl TypeError"
proof -
  have h1: "example_agent \<in> set (agents_table scored_world) \<and> 0 < total_trades example_agent"
    by (simp add: scored_world_def example_world_def example_agent_def)
  have h2: "0 < total_trades example_agent"
    by (simp add: example_agent_def)
  have v: "leaderboard_score scored_world (scan_item example_agent) = Inl TypeError"
    by (simp add: leaderboard_score_def scan_item_def scored_world_def
          example_world_def example_agent_def get_or_def decimal_div_def
          three_quarters one_twentyfifth Let_def del: not_None_eq)
  from leaderboard_score_raises[where a = example_agent and w = scored_world,
         THEN conjunct1, rule_format, OF h1]
       leaderboard_score_raises[where a = example_agent and w = scored_world,
         THEN conjunct2, rule_format, OF h2]
       v
  show ?thesis by blast
qed

lemma busy_length: "length busy_predictions = 100"
  by (simp add: busy_predictions_def)

lemma busy_member:
  "p \<in> set busy_predictions \<Longrightarrow>
     Prediction.agent_id p = ''a1'' \<and> Prediction.market_id p \<noteq> ''m1''
     \<and> Prediction.prediction_id p \<noteq> ''u'' \<and> 2000 \<le> Prediction.created_at p"
  by (auto simp: busy_predictions_def other_prediction_def example_prediction_def)

lemma sorted_newest_first:
  "sorted (map (\<lambda>p. - Prediction.created_at p) (map other_prediction (rev [0..<n])))"
  by (induction n) (auto simp: other_prediction_def)

lemma busy_sorted:
  "sorted (map (\<lambda>p. - Prediction.created_at p) (busy_predictions @ [old_prediction]))"
  using busy_member
  by (auto simp: sorted_append busy_predictions_def[symmetric] sorted_newest_first[of 100, folded busy_predictions_def]
        old_prediction_def example_prediction_def dest!: busy_member)

lemma busy_query:
  "get_predictions_by_agent busy_world ''a1'' 100 = busy_predictions"
proof -
  have f: "filter (\<lambda>p. Prediction.agent_id p = ''a1'') (busy_predictions @ [old_prediction])
             = busy_predictions @ [old_prediction]"
    by (auto simp: filter_id_conv old_prediction_def example_prediction_def dest: busy_member)
  have t: "predictions_table busy_world = busy_predictions @ [old_prediction]"
    by (simp add: busy_world_def)
  show ?thesis
    unfolding get_predictions_by_agent_def t f sort_key_id_if_sorted[OF busy_sorted]
    by (simp add: busy_length)
qed

lemma busy_not_seen: "\<not> recent_prediction_exists busy_world example_agent example_market"
proof -
  have "find (\<lambda>pred. Prediction.market_id pred = ''m1'') busy_predictions = None"
    by (auto simp: find_None_iff dest: busy_member)
  then show ?thesis
    by (simp add: recent_prediction_exists_def get_prediction_for_market_def busy_query
          example_agent_def example_market_def)
qed

lemma busy_filters:
  "filter (\<lambda>p. Prediction.prediction_id p \<noteq> ''u'') busy_predictions = busy_predictions"
  "filter (\<lambda>p. Prediction.agent_id p = ''a1'' \<and> Prediction.market_id p = ''m1'') busy_predictions = []"
  by (auto simp: filter_id_conv filter_empty_conv dest: busy_member)

text \<open>
  Claim C3 fails on the code. The lookup of the most recent prediction for a market
  reads the agent's 100 most recent predictions only. The busy agent has a prediction
  for market \<open>m1\<close> that is 2000 seconds old, and a hundred later predictions for other
  markets: the lookup returns nothing, and the loop body requests a new analysis for
  the pair and stores a second prediction.
\<close>

theorem busy_agent_recomputes_recent_prediction:
  "old_prediction \<in> set (predictions_table busy_world)
   \<and> Prediction.agent_id old_prediction = Agent.agent_id example_agent
   \<and> Prediction.market_id old_prediction = id' example_market
   \<and> clock busy_world - Prediction.created_at old_prediction < 3600
   \<and> get_prediction_for_market busy_world ''a1'' ''m1'' = None
   \<and> bedrock_calls busy_world = []
   \<and> bedrock_calls (fst (process_market example_env example_agent example_strategy
        example_market (busy_world, 0, 0))) = [(''a1'', ''m1'')]
   \<and> predictions_for busy_world ''a1'' ''m1'' = 1
   \<and> predictions_for (fst (process_market example_env example_agent example_strategy
        example_market (busy_world, 0, 0))) ''a1'' ''m1'' = 2"
proof -
  have a: "old_prediction \<in> set (predictions_table busy_world)
   \<and> Prediction.agent_id old_prediction = Agent.agent_id example_agent
   \<and> Prediction.market_id old_prediction = id' example_market
   \<and> clock busy_world - Prediction.created_at old_prediction < 3600
   \<and> bedrock_calls busy_world = []"
    by (simp add: busy_world_def old_prediction_def example_defs)
  have b: "predictions_for busy_world ''a1'' ''m1'' = 1"
    by (simp add: predictions_for_def busy_world_def busy_filters old_prediction_def
          example_prediction_def)
  have aq: "analyse_and_queue example_env example_agent example_strategy example_market
              (busy_world, 0, 0)
            = (busy_world
                 \<lparr>predictions_table :=
                    busy_predictions @ [old_prediction,
                      \<lparr>Prediction.prediction_id = ''u'', Prediction.agent_id = ''a1'',
                        Prediction.market_id = ''m1'', predicted_probability = 0.8,
                        market_probability = 0.6, confidence = ''high'', edge = 0.2,
                        reasoning = ''front'', recommended_direction = ''YES'',
                        Prediction.created_at = 3000, was_correct = None,
                        actual_outcome = None\<rparr>],
                  position_queue :=
                    [\<lparr>agentId = Some ''a1'', marketId = Some ''m1'', direction = Some ''YES'',
                      size = Some (DecimalText 0.2), entryPrice = Some (DecimalText 0.6),
                      predictionId = Some ''u'', telegramChatId = Some 7,
                      timestamp = Some 3000\<rparr>],
                  bedrock_calls := [(''a1'', ''m1'')],
                  uuid_counter := 1\<rparr>, 1, 1)"
    by (simp add: analyse_and_queue_def analyze_market_for_agent_def create_prediction_def
          should_open_position_def evaluate_entry_condition_def queue_position_def
          calculate_position_size_def confidence_multiplier_def CONFIDENCE_ORDER_def
          dict_get_def get_or_def Let_def busy_world_def busy_filters old_prediction_def
          example_defs)
  have c: "bedrock_calls (fst (process_market example_env example_agent example_strategy
        example_market (busy_world, 0, 0))) = [(''a1'', ''m1'')]
     \<and> predictions_for (fst (process_market example_env example_agent example_strategy
        example_market (busy_world, 0, 0))) ''a1'' ''m1'' = 2"
    by (simp add: process_market_def busy_not_seen aq predictions_for_def busy_filters
          old_prediction_def example_prediction_def)
  have d: "get_prediction_for_market busy_world ''a1'' ''m1'' = None"
  proof -
    have "find (\<lambda>pred. Prediction.market_id pred = ''m1'') busy_predictions = None"
      by (auto simp: find_None_iff dest: busy_member)
    then show ?thesis by (simp add: get_prediction_for_market_def busy_query)
  qed
  from a b c d show ?thesis by blast
qed

end
